theory Spec2Isabelle
  imports Main "HOL-Library.Word"
begin

section \<open>JavaScript strings\<close>

text \<open>
  A JavaScript string is a sequence of UTF-16 code units and \<open>length\<close> counts code
  units, so a string is a list of 16-bit words. \<open>js\<close> embeds a literal of the source.
\<close>

type_synonym code_unit = "16 word"
type_synonym jsstring = "code_unit list"

definition js :: "string \<Rightarrow> jsstring" where
  "js s = map of_char s"

text \<open>
  Number-to-string conversion as a template literal performs it, for the non-negative
  integers the modelled code interpolates (\<open>Date.now()\<close>, an array index, an HTTP status):
  the decimal digits, most significant first, without leading zeros.
\<close>

definition digit_unit :: "nat \<Rightarrow> code_unit" where
  "digit_unit d = 0x30 + of_nat d"

function string_of_nat :: "nat \<Rightarrow> jsstring" where
  "string_of_nat n =
     (if n < 10 then [digit_unit n]
      else string_of_nat (n div 10) @ [digit_unit (n mod 10)])"
  by pat_completeness auto
termination
  by (relation "measure (\<lambda>n. n)") auto

declare string_of_nat.simps [simp del]

text \<open>Reading a digit string back; used to show that the conversion loses nothing.\<close>

definition digit_value :: "code_unit \<Rightarrow> nat" where
  "digit_value c = unat (c - 0x30)"

definition nat_of_string :: "jsstring \<Rightarrow> nat" where
  "nat_of_string s = foldl (\<lambda>acc c. acc * 10 + digit_value c) 0 s"

section \<open>Password policy (LoginManager.validatePassword)\<close>

text \<open>
  The five regular-expression tests of the source. \<open>/[A-Z]/\<close>, \<open>/[a-z]/\<close> and \<open>/\d/\<close>
  are ranges of code units; \<open>/[!@#$%^&*(),.?":{}|<>]/\<close> is membership in a fixed set.
  \<open>RegExp.test\<close> without anchors succeeds when some code unit of the string matches.
\<close>

definition is_uppercase :: "code_unit \<Rightarrow> bool" where
  "is_uppercase c = (0x41 \<le> c \<and> c \<le> 0x5A)"

definition is_lowercase :: "code_unit \<Rightarrow> bool" where
  "is_lowercase c = (0x61 \<le> c \<and> c \<le> 0x7A)"

definition is_digit :: "code_unit \<Rightarrow> bool" where
  "is_digit c = (0x30 \<le> c \<and> c \<le> 0x39)"

definition special_characters :: jsstring where
  "special_characters = js ''!@#$%^&*(),.?\":{}|<>''"

definition is_special :: "code_unit \<Rightarrow> bool" where
  "is_special c = (c \<in> set special_characters)"

record password_rules =
  minLength :: bool
  hasUppercase :: bool
  hasLowercase :: bool
  hasNumber :: bool
  hasSpecial :: bool

record password_verdict =
  valid :: bool
  message :: jsstring

definition password_rules_of :: "jsstring \<Rightarrow> password_rules" where
  "password_rules_of password =
     \<lparr> minLength = (length password \<ge> 8),
       hasUppercase = list_ex is_uppercase password,
       hasLowercase = list_ex is_lowercase password,
       hasNumber = list_ex is_digit password,
       hasSpecial = list_ex is_special password \<rparr>"

definition validatePassword :: "jsstring \<Rightarrow> password_verdict" where
  "validatePassword password =
     (let rules = password_rules_of password in
      if \<not> minLength rules then
        \<lparr> valid = False, message = js ''Password must be at least 8 characters long'' \<rparr>
      else if \<not> hasUppercase rules then
        \<lparr> valid = False,
          message = js ''Password must contain at least one uppercase letter'' \<rparr>
      else if \<not> hasLowercase rules then
        \<lparr> valid = False,
          message = js ''Password must contain at least one lowercase letter'' \<rparr>
      else if \<not> hasNumber rules then
        \<lparr> valid = False, message = js ''Password must contain at least one number'' \<rparr>
      else if \<not> hasSpecial rules then
        \<lparr> valid = False,
          message =
            js ''Password must contain at least one special character (!@#$%^&*)'' \<rparr>
      else \<lparr> valid = True, message = js ''Password is strong'' \<rparr>)"

text \<open>
  The policy as the specification words it: five rules in a fixed order, each with its
  message; the verdict is that of the first rule the candidate violates.
\<close>

datatype policy_rule =
  LengthRule | UppercaseRule | LowercaseRule | DigitRule | SymbolRule

definition rule_order :: "policy_rule list" where
  "rule_order = [LengthRule, UppercaseRule, LowercaseRule, DigitRule, SymbolRule]"

fun satisfies :: "jsstring \<Rightarrow> policy_rule \<Rightarrow> bool" where
  "satisfies p LengthRule = (8 \<le> length p)"
| "satisfies p UppercaseRule = (\<exists>c \<in> set p. is_uppercase c)"
| "satisfies p LowercaseRule = (\<exists>c \<in> set p. is_lowercase c)"
| "satisfies p DigitRule = (\<exists>c \<in> set p. is_digit c)"
| "satisfies p SymbolRule = (\<exists>c \<in> set p. c \<in> set (js ''!@#$%^&*(),.?\":{}|<>''))"

fun rule_message :: "policy_rule \<Rightarrow> jsstring" where
  "rule_message LengthRule = js ''Password must be at least 8 characters long''"
| "rule_message UppercaseRule =
     js ''Password must contain at least one uppercase letter''"
| "rule_message LowercaseRule =
     js ''Password must contain at least one lowercase letter''"
| "rule_message DigitRule = js ''Password must contain at least one number''"
| "rule_message SymbolRule =
     js ''Password must contain at least one special character (!@#$%^&*)''"

definition first_violated :: "jsstring \<Rightarrow> policy_rule option" where
  "first_violated p = find (\<lambda>r. \<not> satisfies p r) rule_order"

section \<open>Data model\<close>

text \<open>
  The JSON records the client reads, each with the fields the modelled code accesses.
  A field that may be absent is an \<open>option\<close>; interpolating an absent field into a
  template literal gives the text \<open>undefined\<close>.
\<close>

record dataset =
  ds_id :: jsstring
  ds_name :: jsstring
  ds_rows :: nat
  ds_columns :: nat
  ds_uploaded_by :: "jsstring option"

record visualization =
  viz_title :: jsstring
  viz_type :: "jsstring option"
  viz_url :: "jsstring option"
  viz_html :: "jsstring option"

text \<open>
  The value of a table cell. The modelled code does one thing with a number, which is to
  convert it to a string, and that conversion gives every number a text of its own; a
  number is therefore given by this text (\<open>JNumber (js ''1'')\<close> is the number one).
\<close>

datatype json_value = JNull | JBool bool | JNumber jsstring | JString jsstring

type_synonym table_row = "(jsstring \<times> json_value) list"

record data_table =
  table_title :: jsstring
  table_columns :: "jsstring list option"
  table_data :: "table_row list option"

record query_result =
  query :: jsstring
  timestamp :: jsstring
  datasets_used :: "jsstring list"
  response :: "jsstring option"
  visualizations :: "visualization list option"
  data_tables :: "data_table list option"

definition interpolate :: "jsstring option \<Rightarrow> jsstring" where
  "interpolate v = (case v of None \<Rightarrow> js ''undefined'' | Some s \<Rightarrow> s)"

definition truthy :: "jsstring option \<Rightarrow> bool" where
  "truthy v = (case v of None \<Rightarrow> False | Some s \<Rightarrow> s \<noteq> [])"

text \<open>\<open>a || b\<close> on an optional string: \<open>b\<close> when \<open>a\<close> is absent or empty.\<close>

definition or_else :: "jsstring option \<Rightarrow> jsstring \<Rightarrow> jsstring" where
  "or_else v d = (case v of None \<Rightarrow> d | Some s \<Rightarrow> if s = [] then d else s)"

section \<open>HTTP client gateway (API.request)\<close>

text \<open>
  A thrown value is an \<open>Error\<close> object with its \<open>name\<close> and \<open>message\<close>;
  \<open>new Error(m)\<close> has the name \<open>Error\<close>, and \<open>new Error(undefined)\<close> an empty
  message.
\<close>

datatype js_error = JsError (error_name: jsstring) (error_message: jsstring)

definition new_Error :: "jsstring \<Rightarrow> js_error" where
  "new_Error m = JsError (js ''Error'') m"

definition new_Error_of :: "jsstring option \<Rightarrow> js_error" where
  "new_Error_of m = new_Error (case m of None \<Rightarrow> [] | Some t \<Rightarrow> t)"

fun js_includes :: "jsstring \<Rightarrow> jsstring \<Rightarrow> bool" where
  "js_includes [] t = (t = [])"
| "js_includes (c # s) t = (take (length t) (c # s) = t \<or> js_includes s t)"

text \<open>
  The parsed JSON body of a response: the fields the client reads. \<open>success\<close> and
  \<open>auth_error\<close> are the truthiness of the fields of that name; \<open>json_datasets\<close>
  and \<open>json_result\<close> are the fields \<open>datasets\<close> and \<open>result\<close>, read only after a
  truthy \<open>success\<close> on the routes whose response shape carries them.
\<close>

record json_body =
  success :: bool
  error :: "jsstring option"
  auth_error :: bool
  json_datasets :: "dataset list"
  json_result :: query_result

record upload_file =
  file_name :: jsstring
  file_bytes :: "8 word list"

datatype request_body = FormData upload_file | JsonBody "(string \<times> jsstring) list"

record request_options =
  options_method :: "string option"
  options_body :: "request_body option"

record fetch_call =
  url :: jsstring
  credentials :: string
  content_type :: "string option"
  http_method :: "string option"
  sent_body :: "request_body option"

text \<open>
  What \<open>fetch\<close> and then \<open>response.json()\<close> do is the environment's choice: \<open>fetch\<close>
  rejects, or resolves to a response with a status whose body either fails to parse or
  parses to a JSON record.
\<close>

datatype fetch_outcome =
  Rejected js_error
| Responded nat "js_error + json_body"

text \<open>
  The world the gateway acts on: whether \<open>window.authManager\<close> is registered, how often
  its \<open>showAuthModal\<close> hook has been invoked, every \<open>fetch\<close> call made so far (oldest
  first), and the state of the remote server. The server is a parameter
  \<open>fetch :: fetch_call \<Rightarrow> 'srv \<Rightarrow> fetch_outcome \<times> 'srv\<close> of every operation that calls it.
\<close>

record 'srv world =
  authManager :: bool
  authModalShown :: nat
  fetched :: "fetch_call list"
  server :: 'srv

type_synonym 'srv fetcher = "fetch_call \<Rightarrow> 'srv \<Rightarrow> fetch_outcome \<times> 'srv"

definition baseURL :: jsstring where
  "baseURL = js ''/api''"

definition response_ok :: "nat \<Rightarrow> bool" where
  "response_ok status = (200 \<le> status \<and> status \<le> 299)"

definition showAuthModal :: "'srv world \<Rightarrow> 'srv world" where
  "showAuthModal w = w\<lparr> authModalShown := authModalShown w + 1 \<rparr>"

text \<open>
  The configuration \<open>{...defaultOptions, ...options}\<close> passed to \<open>fetch\<close>. The callers
  set a method and a body only, never headers, so the headers are the default ones, less
  the content type when the body is form data.
\<close>

definition request_config :: "jsstring \<Rightarrow> request_options \<Rightarrow> fetch_call" where
  "request_config endpoint options =
     \<lparr> url = baseURL @ endpoint,
       credentials = ''include'',
       content_type =
         (case options_body options of
            Some (FormData f) \<Rightarrow> None
          | _ \<Rightarrow> Some ''application/json''),
       http_method = options_method options,
       sent_body = options_body options \<rparr>"

text \<open>The \<open>catch\<close> block of \<open>request\<close>: what is thrown to the caller for a caught error.\<close>

definition request_catch :: "js_error \<Rightarrow> js_error" where
  "request_catch e =
     (if error_name e = js ''TypeError'' \<and> js_includes (error_message e) (js ''fetch'')
      then new_Error (js ''Network error. Please check your connection and try again.'')
      else e)"

definition request :: "'srv fetcher \<Rightarrow> jsstring \<Rightarrow> request_options \<Rightarrow> 'srv world
    \<Rightarrow> (js_error + json_body) \<times> 'srv world" where
  "request fetch endpoint options w =
     (let config = request_config endpoint options;
          (outcome, srv) = fetch config (server w);
          w1 = w\<lparr> fetched := fetched w @ [config], server := srv \<rparr>
      in case outcome of
           Rejected e \<Rightarrow> (Inl (request_catch e), w1)
         | Responded status parsed \<Rightarrow>
             (case parsed of
                Inl e \<Rightarrow> (Inl (request_catch e), w1)
              | Inr data \<Rightarrow>
                  if \<not> response_ok status then
                    if status = 401 \<and> auth_error data then
                      (Inl (request_catch (new_Error (js ''Authentication required''))),
                       if authManager w1 then showAuthModal w1 else w1)
                    else
                      (Inl (request_catch (new_Error
                         (or_else (error data)
                            (js ''HTTP error! status: '' @ string_of_nat status)))),
                       w1)
                  else (Inr data, w1)))"

definition no_options :: request_options where
  "no_options = \<lparr> options_method = None, options_body = None \<rparr>"

definition getSharedDatasets :: "'srv fetcher \<Rightarrow> 'srv world
    \<Rightarrow> (js_error + json_body) \<times> 'srv world" where
  "getSharedDatasets fetch = request fetch (js ''/shared-datasets'') no_options"

definition getAdminSharedDatasets :: "'srv fetcher \<Rightarrow> 'srv world
    \<Rightarrow> (js_error + json_body) \<times> 'srv world" where
  "getAdminSharedDatasets fetch =
     request fetch (js ''/admin/shared-datasets'') no_options"




definition api_executeQuery :: "'srv fetcher \<Rightarrow> jsstring \<Rightarrow> 'srv world
    \<Rightarrow> (js_error + json_body) \<times> 'srv world" where
  "api_executeQuery fetch q =
     request fetch (js ''/query'')
       \<lparr> options_method = Some ''POST'',
         options_body = Some (JsonBody [(''query'', q)]) \<rparr>"

text \<open>
  Concrete servers used to run the gateway: each answers every call with one fixed
  status and JSON body.
\<close>

definition blank_result :: query_result where
  "blank_result =
     \<lparr> query = [], timestamp = [], datasets_used = [], response = None,
       visualizations = None, data_tables = None \<rparr>"

definition flagged_body :: json_body where
  "flagged_body =
     \<lparr> success = False, error = Some (js ''Forbidden''), auth_error = True,
       json_datasets = [], json_result = blank_result \<rparr>"

definition unflagged_body :: json_body where
  "unflagged_body =
     \<lparr> success = False, error = Some (js ''Authentication required''),
       auth_error = False, json_datasets = [], json_result = blank_result \<rparr>"

definition server_403_flagged :: "unit fetcher" where
  "server_403_flagged c s = (Responded 403 (Inr flagged_body), s)"

definition server_401_flagged :: "unit fetcher" where
  "server_401_flagged c s = (Responded 401 (Inr flagged_body), s)"

definition server_401_unflagged :: "unit fetcher" where
  "server_401_unflagged c s = (Responded 401 (Inr unflagged_body), s)"

definition hooked_world :: "unit world" where
  "hooked_world = \<lparr> authManager = True, authModalShown = 0, fetched = [], server = () \<rparr>"

section \<open>Markup\<close>

text \<open>
  The source builds markup as template-literal strings and assigns them to
  \<open>innerHTML\<close>. The model keeps the tree that the template itself describes: an
  element with its tag, its attributes in source order and its children. An
  interpolated string stands where the template puts it: \<open>Text s\<close> is the string
  \<open>s\<close> written at a content position, an attribute value is the string written
  between the double quotes of the attribute, and \<open>Raw s\<close> is a string that the
  source itself treats as markup (\<open>viz.html\<close>, the formatted response text). White
  space that only lays out the template between tags is not kept.

  The source escapes none of these strings, and the browser parses them with the rest.
  The tree of the template is therefore the document of the browser only when the
  strings are inert (\<open>inert\<close> and \<open>browser_document\<close> below); a string with a
  \<open><\<close> in it can add elements or swallow those that follow. The queries defined
  next look at the elements the template writes and at nothing inside a string.
\<close>

datatype node =
  Text jsstring
| Raw jsstring
| Element string "(string \<times> jsstring) list" "node list"

definition attribute :: "node \<Rightarrow> string \<Rightarrow> jsstring option" where
  "attribute n a = (case n of Element t as cs \<Rightarrow> map_of as a | _ \<Rightarrow> None)"


text \<open>
  Queries on the tree of the template, in document order: the elements whose \<open>class\<close>
  attribute is a given name, the elements of a given tag, the text of a subtree, and the
  node reached by following child positions.
\<close>

fun elements_by_class :: "jsstring \<Rightarrow> node \<Rightarrow> node list" where
  "elements_by_class c (Text s) = []"
| "elements_by_class c (Raw s) = []"
| "elements_by_class c (Element t as cs) =
     (if map_of as ''class'' = Some c then [Element t as cs] else [])
     @ concat (map (elements_by_class c) cs)"

fun elements_by_tag :: "string \<Rightarrow> node \<Rightarrow> node list" where
  "elements_by_tag g (Text s) = []"
| "elements_by_tag g (Raw s) = []"
| "elements_by_tag g (Element t as cs) =
     (if t = g then [Element t as cs] else [])
     @ concat (map (elements_by_tag g) cs)"

fun text_content :: "node \<Rightarrow> jsstring" where
  "text_content (Text s) = s"
| "text_content (Raw s) = s"
| "text_content (Element t as cs) = concat (map text_content cs)"


text \<open>
  When the tree of the template is the document. A string at a content position is
  inert when it has neither \<open><\<close> nor \<open>&\<close>, a double-quoted attribute value when it
  has neither \<open>"\<close> nor \<open>&\<close>. A string treated as markup is inert when it is such
  text with line breaks \<open><br>\<close> in between, which is what \<open>formatResponseText\<close>
  makes of inert text. \<open>browser_document\<close> is the document the browser builds from a
  piece of content, where the model knows it: the tree itself when all its strings are
  inert, and unknown (\<open>None\<close>) otherwise.
\<close>

definition text_safe :: "jsstring \<Rightarrow> bool" where
  "text_safe s = (0x3C \<notin> set s \<and> 0x26 \<notin> set s)"

definition attribute_safe :: "jsstring \<Rightarrow> bool" where
  "attribute_safe s = (0x22 \<notin> set s \<and> 0x26 \<notin> set s)"

function markup_safe :: "jsstring \<Rightarrow> bool" where
  "markup_safe [] = True"
| "markup_safe (c # s) =
     (if take 4 (c # s) = js ''<br>'' then markup_safe (drop 3 s)
      else c \<noteq> 0x3C \<and> c \<noteq> 0x26 \<and> markup_safe s)"
  by pat_completeness auto
termination
  by (relation "measure length") auto

fun inert :: "node \<Rightarrow> bool" where
  "inert (Text s) = text_safe s"
| "inert (Raw s) = markup_safe s"
| "inert (Element t as cs) =
     (list_all (\<lambda>a. attribute_safe (snd a)) as \<and> list_all inert cs)"

definition browser_document :: "node list \<Rightarrow> node list option" where
  "browser_document content = (if list_all inert content then Some content else None)"

text \<open>
  The visualization blocks of a piece of content (the elements of class
  \<open>visualization\<close>), the identifiers of these containers, and the alternative texts of
  the images inside a block.
\<close>

definition visualization_blocks :: "node list \<Rightarrow> node list" where
  "visualization_blocks content =
     concat (map (elements_by_class (js ''visualization'')) content)"

definition container_ids :: "node list \<Rightarrow> jsstring option list" where
  "container_ids content = map (\<lambda>e. attribute e ''id'') (visualization_blocks content)"

definition image_alts :: "node \<Rightarrow> jsstring option list" where
  "image_alts blk = map (\<lambda>e. attribute e ''alt'') (elements_by_tag ''img'' blk)"

text \<open>
  In the document the browser builds from a piece of content: for each visualization
  block, the alternative texts of its images, and the text of each visualization block.
\<close>

definition block_images :: "node list \<Rightarrow> jsstring option list list option" where
  "block_images content =
     map_option (\<lambda>doc. map image_alts (visualization_blocks doc)) (browser_document content)"

definition block_texts :: "node list \<Rightarrow> jsstring list option" where
  "block_texts content =
     map_option (\<lambda>doc. map text_content (visualization_blocks doc))
       (browser_document content)"

text \<open>
  \<open>document.getElementById(i)\<close> finds the first element in document order whose
  \<open>id\<close> attribute is \<open>i\<close>; \<open>set_inner_first i new\<close> is the assignment
  \<open>document.getElementById(i).innerHTML = new\<close> on a sequence of sibling trees.
\<close>

fun has_id :: "jsstring \<Rightarrow> node \<Rightarrow> bool" where
  "has_id i (Text s) = False"
| "has_id i (Raw s) = False"
| "has_id i (Element t as cs) = (map_of as ''id'' = Some i \<or> list_ex (has_id i) cs)"

fun set_inner :: "jsstring \<Rightarrow> node list \<Rightarrow> node \<Rightarrow> node"
  and set_inner_first :: "jsstring \<Rightarrow> node list \<Rightarrow> node list \<Rightarrow> node list" where
  "set_inner i new (Text s) = Text s"
| "set_inner i new (Raw s) = Raw s"
| "set_inner i new (Element t as cs) =
     (if map_of as ''id'' = Some i then Element t as new
      else Element t as (set_inner_first i new cs))"
| "set_inner_first i new [] = []"
| "set_inner_first i new (n # ns) =
     (if has_id i n then set_inner i new n # ns else n # set_inner_first i new ns)"

definition icon :: "string \<Rightarrow> node" where
  "icon c = Element ''i'' [(''class'', js c)] []"

fun join :: "jsstring \<Rightarrow> jsstring list \<Rightarrow> jsstring" where
  "join sep [] = []"
| "join sep [s] = s"
| "join sep (s # t # ss) = s @ sep @ join sep (t # ss)"

text \<open>
  \<open>String.prototype.trim\<close> removes the white space and line terminators of
  ECMAScript from both ends.
\<close>

definition is_whitespace :: "code_unit \<Rightarrow> bool" where
  "is_whitespace c =
     (c \<in> {0x09, 0x0A, 0x0B, 0x0C, 0x0D, 0x20, 0xA0, 0x1680, 0x2028, 0x2029, 0x202F,
            0x205F, 0x3000, 0xFEFF}
      \<or> (0x2000 \<le> c \<and> c \<le> 0x200A))"

definition trim :: "jsstring \<Rightarrow> jsstring" where
  "trim s = rev (dropWhile is_whitespace (rev (dropWhile is_whitespace s)))"

section \<open>Result rendering shared by both controllers\<close>

text \<open>
  \<open>formatResponseText\<close>: every line feed of the text becomes the markup \<open><br>\<close>; the
  result is a markup string.
\<close>

definition formatResponseText :: "jsstring option \<Rightarrow> jsstring" where
  "formatResponseText text =
     (if \<not> truthy text then []
      else concat (map (\<lambda>c. if c = 0x0A then js ''<br>'' else [c]) (the text)))"

text \<open>
  The header block and the response block, which both \<open>renderQueryResults\<close> methods
  build alike. \<open>new Date(t).toLocaleString()\<close> depends on the locale of the browser and
  is the parameter \<open>toLocaleString\<close>.
\<close>

definition header_block :: "(jsstring \<Rightarrow> jsstring) \<Rightarrow> query_result \<Rightarrow> node" where
  "header_block toLocaleString r =
     Element ''div'' [(''class'', js ''result-item'')]
       [Element ''h4'' [] [Text (js ''Query: \"'' @ query r @ js ''\"'')],
        Element ''div'' [(''class'', js ''result-meta'')]
          [Element ''span'' []
             [Text (js ''Executed on: '' @ toLocaleString (timestamp r))],
           Element ''span'' []
             [Text (js ''Datasets used: '' @ join (js '', '') (datasets_used r))]]]"

definition response_block :: "query_result \<Rightarrow> node list" where
  "response_block r =
     (if truthy (response r) \<and> trim (the (response r)) \<noteq> [] then
        [Element ''div'' [(''class'', js ''result-item'')]
           [Element ''div'' [(''class'', js ''response-content'')]
              [Raw (formatResponseText (response r))]]]
      else [])"

text \<open>
  The strings of a result that both \<open>renderQueryResults\<close> methods interpolate outside
  the visualization and table blocks are inert: the query, the formatted timestamp, the
  dataset names and the response text.
\<close>

definition plain_result :: "(jsstring \<Rightarrow> jsstring) \<Rightarrow> query_result \<Rightarrow> bool" where
  "plain_result toLocaleString r =
     (text_safe (query r) \<and> text_safe (toLocaleString (timestamp r))
      \<and> list_all text_safe (datasets_used r)
      \<and> (case response r of None \<Rightarrow> True | Some t \<Rightarrow> text_safe t))"

text \<open>
  \<open>result.visualizations && result.visualizations.length > 0\<close> and the same test on
  \<open>data_tables\<close>: an absent sequence is skipped as an empty one is.
\<close>

definition present :: "'a list option \<Rightarrow> 'a list" where
  "present xs = (case xs of None \<Rightarrow> [] | Some ys \<Rightarrow> ys)"

section \<open>PharmaQueryApp: deferred visualization rendering\<close>

text \<open>
  The page of this controller: the children of \<open>#resultsContent\<close> and the callbacks
  that \<open>setTimeout\<close> holds, oldest first. No element outside \<open>#resultsContent\<close> has
  an identifier of the form \<open>viz-...\<close>, so \<open>getElementById\<close> on a container
  identifier searches these children.
\<close>

record pharma_page =
  resultsContent :: "node list"
  timers :: "(visualization \<times> jsstring) list"

text \<open>The identifier \<open>`viz-${Date.now()}-${index}`\<close>.\<close>

definition viz_id :: "nat \<Rightarrow> nat \<Rightarrow> jsstring" where
  "viz_id now index = js ''viz-'' @ string_of_nat now @ js ''-'' @ string_of_nat index"

definition pharma_viz_block :: "visualization \<Rightarrow> jsstring \<Rightarrow> node" where
  "pharma_viz_block viz vizId =
     Element ''div'' [(''class'', js ''result-item'')]
       [Element ''h4'' [] [icon ''fas fa-chart-bar'', Text (js '' '' @ viz_title viz)],
        Element ''div'' [(''class'', js ''visualization''), (''id'', vizId)]
          [Element ''div'' [(''class'', js ''viz-loading'')]
             [icon ''fas fa-spinner fa-spin'',
              Element ''span'' [] [Text (js ''Rendering chart...'')]]]]"

text \<open>
  \<open>renderVisualization\<close> only schedules its body; \<open>visualization_markup\<close> is what the
  body assigns to the container. Nothing in the \<open>try\<close> block can throw on a
  visualization of the record type, so the \<open>catch\<close> branch has no counterpart here.
\<close>

definition renderVisualization :: "visualization \<Rightarrow> jsstring \<Rightarrow> pharma_page \<Rightarrow> pharma_page"
  where
  "renderVisualization viz containerId page =
     page\<lparr> timers := timers page @ [(viz, containerId)] \<rparr>"

definition visualization_markup :: "visualization \<Rightarrow> node list" where
  "visualization_markup viz =
     (if viz_type viz = Some (js ''chart'') \<and> truthy (viz_url viz) then
        [Element ''img''
           [(''src'', interpolate (viz_url viz)),
            (''style'', js ''max-width: 100%; height: auto;''),
            (''alt'', viz_title viz)] []]
      else if truthy (viz_html viz) then [Raw (the (viz_html viz))]
      else
        [Element ''div'' [(''class'', js ''viz-error'')]
           [icon ''fas fa-exclamation-triangle'',
            Element ''span'' [] [Text (js ''No visualization content available'')]]])"

definition timer_callback :: "visualization \<times> jsstring \<Rightarrow> node list \<Rightarrow> node list" where
  "timer_callback t content =
     (case t of (viz, containerId) \<Rightarrow>
        if \<not> list_ex (has_id containerId) content then content
        else set_inner_first containerId (visualization_markup viz) content)"

definition run_timers :: "pharma_page \<Rightarrow> pharma_page" where
  "run_timers page =
     \<lparr> resultsContent = foldl (\<lambda>content t. timer_callback t content)
         (resultsContent page) (timers page),
       timers = [] \<rparr>"

text \<open>
  \<open>PharmaQueryApp.renderQueryResults\<close>. \<open>Date.now()\<close> is read once for each
  visualization, inside the loop; \<open>now index\<close> is the reading taken at that index.
\<close>

definition viz_ids :: "(nat \<Rightarrow> nat) \<Rightarrow> nat \<Rightarrow> jsstring list" where
  "viz_ids now n = map (\<lambda>index. viz_id (now index) index) [0..<n]"

definition pharma_renderQueryResults ::
    "(jsstring \<Rightarrow> jsstring) \<Rightarrow> (nat \<Rightarrow> nat) \<Rightarrow> query_result \<Rightarrow> pharma_page
      \<Rightarrow> pharma_page" where
  "pharma_renderQueryResults toLocaleString now r page =
     (let vizs = present (visualizations r);
          vizIds = viz_ids now (length vizs);
          html = header_block toLocaleString r # response_block r
                 @ map2 pharma_viz_block vizs vizIds;
          page1 = page\<lparr> resultsContent := html \<rparr>
      in foldl (\<lambda>p (viz, vizId). renderVisualization viz vizId p) page1 (zip vizs vizIds))"

definition pharma_pipeline ::
    "(jsstring \<Rightarrow> jsstring) \<Rightarrow> (nat \<Rightarrow> nat) \<Rightarrow> query_result \<Rightarrow> pharma_page
      \<Rightarrow> pharma_page" where
  "pharma_pipeline toLocaleString now r page =
     run_timers (pharma_renderQueryResults toLocaleString now r page)"

section \<open>AMINAApp: result rendering\<close>

text \<open>
  \<open>row[col]\<close> on a row object parsed from JSON. A key of the row itself gives its
  value. Any other name is looked up in \<open>Object.prototype\<close>, which every such object
  inherits from: \<open>constructor\<close> and the other methods named below are functions, and
  \<open>__proto__\<close> is an accessor that returns \<open>Object.prototype\<close> itself. Only the
  string conversion of an inherited member is used, so the member is given by that text
  (as V8 prints a built-in function). Every other name gives \<open>undefined\<close>.
\<close>

definition native_function_text :: "string \<Rightarrow> jsstring" where
  "native_function_text f = js ''function '' @ js f @ js ''() { [native code] }''"

definition object_prototype_text :: "jsstring \<Rightarrow> jsstring option" where
  "object_prototype_text key =
     (if key = js ''constructor'' then Some (native_function_text ''Object'')
      else if key = js ''__proto__'' then Some (js ''[object Object]'')
      else map_option native_function_text
        (find (\<lambda>f. key = js f)
           [''toString'', ''toLocaleString'', ''valueOf'', ''hasOwnProperty'',
            ''isPrototypeOf'', ''propertyIsEnumerable'', ''__defineGetter__'',
            ''__defineSetter__'', ''__lookupGetter__'', ''__lookupSetter__'']))"

datatype property = Undefined | Own json_value | Inherited jsstring

definition get_property :: "table_row \<Rightarrow> jsstring \<Rightarrow> property" where
  "get_property row key =
     (case map_of row key of
        Some v \<Rightarrow> Own v
      | None \<Rightarrow>
          (case object_prototype_text key of
             Some t \<Rightarrow> Inherited t
           | None \<Rightarrow> Undefined))"

text \<open>
  What a template literal makes of a cell value; \<open>renderDataTable\<close> replaces \<open>null\<close>
  and \<open>undefined\<close> by the empty string first.
\<close>

fun to_string :: "json_value \<Rightarrow> jsstring" where
  "to_string JNull = js ''null''"
| "to_string (JBool b) = (if b then js ''true'' else js ''false'')"
| "to_string (JNumber t) = t"
| "to_string (JString s) = s"

definition displayValue :: "property \<Rightarrow> jsstring" where
  "displayValue v =
     (case v of
        Own JNull \<Rightarrow> []
      | Undefined \<Rightarrow> []
      | Own x \<Rightarrow> to_string x
      | Inherited t \<Rightarrow> t)"

definition no_data :: node where
  "no_data = Element ''p'' [(''class'', js ''no-data'')] [Text (js ''No data to display'')]"

definition renderDataTable :: "data_table \<Rightarrow> node" where
  "renderDataTable table =
     (if table_data table = None \<or> table_columns table = None
         \<or> length (the (table_data table)) = 0 then no_data
      else
        Element ''div'' [(''class'', js ''table-wrapper'')]
          [Element ''table'' [(''class'', js ''data-table'')]
             [Element ''thead'' []
                [Element ''tr'' []
                   (map (\<lambda>col. Element ''th'' [] [Text col]) (the (table_columns table)))],
              Element ''tbody'' []
                (map (\<lambda>row. Element ''tr'' []
                        (map (\<lambda>col. Element ''td'' []
                                       [Text (displayValue (get_property row col))])
                           (the (table_columns table))))
                   (the (table_data table)))]])"


definition amina_viz_block :: "visualization \<Rightarrow> node" where
  "amina_viz_block viz =
     Element ''div'' [(''class'', js ''result-item'')]
       [Element ''h4'' [] [icon ''fas fa-chart-bar'', Text (js '' '' @ viz_title viz)],
        Element ''div'' [(''class'', js ''visualization'')]
          [Element ''img''
             [(''src'', interpolate (viz_url viz)),
              (''alt'', viz_title viz),
              (''style'', js (''max-width: 100%; height: auto; border-radius: 8px; ''
                 @ ''box-shadow: 0 2px 8px rgba(0,0,0,0.1);'')),
              (''onload'', js ''console.log('Chart loaded successfully')''),
              (''onerror'', js (''console.error('Failed to load chart:', this.src); ''
                 @ ''this.style.display='none'; ''
                 @ ''this.nextElementSibling.style.display='block';''))] [],
           Element ''div''
             [(''style'', js ''display: none; text-align: center; color: #666; padding: 20px;'')]
             [icon ''fas fa-exclamation-triangle'',
              Element ''p'' [] [Text (js ''Failed to load chart'')]]]]"

definition table_block :: "data_table \<Rightarrow> node" where
  "table_block table =
     Element ''div'' [(''class'', js ''result-item'')]
       [Element ''h4'' [] [icon ''fas fa-table'', Text (js '' '' @ table_title table)],
        Element ''div'' [(''class'', js ''data-table-container'')]
          [renderDataTable table]]"

definition renderQueryResults :: "(jsstring \<Rightarrow> jsstring) \<Rightarrow> query_result \<Rightarrow> node list" where
  "renderQueryResults toLocaleString r =
     header_block toLocaleString r # response_block r
     @ map amina_viz_block (present (visualizations r))
     @ map table_block (present (data_tables r))"

text \<open>
  Sample inputs: the result with the single chart \<open>{title:"Chart A",
  url:"http://x/a.png"}\<close> and no data table, two clocks that stand still, the table
  \<open>{columns:["a","b"], data:[{a:1,b:null}]}\<close>, and the table
  \<open>{columns:["a","constructor"], data:[{a:1}]}\<close>.
\<close>

definition chart_a :: visualization where
  "chart_a =
     \<lparr> viz_title = js ''Chart A'', viz_type = None, viz_url = Some (js ''http://x/a.png''),
       viz_html = None \<rparr>"

definition chart_a_result :: query_result where
  "chart_a_result =
     \<lparr> query = js ''plot sales'', timestamp = js ''2024-01-01T00:00:00'',
       datasets_used = [js ''sales''], response = None,
       visualizations = Some [chart_a], data_tables = Some [] \<rparr>"

definition iso_locale :: "jsstring \<Rightarrow> jsstring" where
  "iso_locale t = t"

definition empty_page :: pharma_page where
  "empty_page = \<lparr> resultsContent = [], timers = [] \<rparr>"

definition frozen_clock :: "nat \<Rightarrow> nat" where
  "frozen_clock index = 1700000000000"

definition later_clock :: "nat \<Rightarrow> nat" where
  "later_clock index = 1700000000250"

definition ab_table :: data_table where
  "ab_table =
     \<lparr> table_title = js ''T'', table_columns = Some [js ''a'', js ''b''],
       table_data = Some [[(js ''a'', JNumber (js ''1'')), (js ''b'', JNull)]] \<rparr>"


section \<open>Form validation (UI.validateForm)\<close>

text \<open>
  A form field with what validation reads and writes: its value, whether it carries
  the class \<open>error\<close>, and the text of the \<open>.field-error\<close> element of its parent, if
  there is one (each field has a parent of its own). A form is the sequence of its named
  fields, \<open>form.querySelector('[name="n"]')\<close> being the first field of that name; the
  document is the sequence of its forms by identifier.
\<close>

record field =
  field_value :: jsstring
  error_class :: bool
  field_error :: "jsstring option"

type_synonym form = "(jsstring \<times> field) list"
type_synonym forms_document = "(jsstring \<times> form) list"

definition showFieldError :: "field \<Rightarrow> jsstring \<Rightarrow> field" where
  "showFieldError f msg = f\<lparr> error_class := True, field_error := Some msg \<rparr>"

definition clearFieldError :: "field \<Rightarrow> field" where
  "clearFieldError f = f\<lparr> error_class := False, field_error := None \<rparr>"

text \<open>
  \<open>/^[^\s@]+@[^\s@]+\.[^\s@]+$/\<close>: the string splits, at some \<open>@\<close> and some later
  full stop, into three non-empty parts free of white space and \<open>@\<close>.
\<close>

definition email_part :: "jsstring \<Rightarrow> bool" where
  "email_part p = (p \<noteq> [] \<and> list_all (\<lambda>c. \<not> is_whitespace c \<and> c \<noteq> 0x40) p)"

definition isValidEmail :: "jsstring \<Rightarrow> bool" where
  "isValidEmail email =
     list_ex (\<lambda>i. list_ex (\<lambda>j.
         email_part (take i email) \<and> email ! i = 0x40
         \<and> email_part (take (j - Suc i) (drop (Suc i) email)) \<and> email ! j = 0x2E
         \<and> email_part (drop (Suc j) email))
       [Suc i..<length email]) [0..<length email]"

text \<open>
  The options of one field. A numeric option that is absent or zero is falsy and is
  \<open>0\<close> here. A \<open>custom\<close> function returns \<open>true\<close> or something else, of which only
  the message it may carry is used.
\<close>

datatype custom_result = Passed | Failed "jsstring option"

record field_rules =
  rule_required :: bool
  rule_minLength :: nat
  rule_maxLength :: nat
  rule_email :: bool
  rule_custom :: "(jsstring \<Rightarrow> custom_result) option"

text \<open>
  The message that \<open>errors[fieldName]\<close> holds after the five checks of one field, each
  failing check overwriting the message of an earlier one.
\<close>

definition field_message :: "field_rules \<Rightarrow> jsstring \<Rightarrow> jsstring option" where
  "field_message fieldRules v =
     (let e1 = (if rule_required fieldRules \<and> trim v = []
                then Some (js ''This field is required'') else None);
          e2 = (if 0 < rule_minLength fieldRules \<and> length v < rule_minLength fieldRules
                then Some (js ''Minimum length is ''
                       @ string_of_nat (rule_minLength fieldRules) @ js '' characters'')
                else e1);
          e3 = (if 0 < rule_maxLength fieldRules \<and> length v > rule_maxLength fieldRules
                then Some (js ''Maximum length is ''
                       @ string_of_nat (rule_maxLength fieldRules) @ js '' characters'')
                else e2);
          e4 = (if rule_email fieldRules \<and> v \<noteq> [] \<and> \<not> isValidEmail v
                then Some (js ''Please enter a valid email address'') else e3)
      in case rule_custom fieldRules of
           None \<Rightarrow> e4
         | Some f \<Rightarrow>
             (case f v of
                Passed \<Rightarrow> e4
              | Failed m \<Rightarrow> Some (or_else m (js ''Invalid value''))))"

fun replace_first :: "'k \<Rightarrow> 'v \<Rightarrow> ('k \<times> 'v) list \<Rightarrow> ('k \<times> 'v) list" where
  "replace_first k v [] = []"
| "replace_first k v ((k', v') # kvs) =
     (if k' = k then (k, v) # kvs else (k', v') # replace_first k v kvs)"

text \<open>
  The state of the \<open>forEach\<close> over \<open>Object.keys(rules)\<close>: \<open>isValid\<close>, \<open>errors\<close> (in
  the order the keys were added) and the form. The rules are the entries of the
  \<open>rules\<close> object in key order.
\<close>

record validation_state =
  isValid :: bool
  errors :: "(jsstring \<times> jsstring) list"
  the_form :: form

definition validate_field ::
    "validation_state \<Rightarrow> jsstring \<times> field_rules \<Rightarrow> validation_state" where
  "validate_field st rule =
     (case rule of (fieldName, fieldRules) \<Rightarrow>
        (case map_of (the_form st) fieldName of
           None \<Rightarrow> st
         | Some f \<Rightarrow>
             (case field_message fieldRules (field_value f) of
                None \<Rightarrow>
                  st\<lparr> the_form := replace_first fieldName (clearFieldError f) (the_form st) \<rparr>
              | Some msg \<Rightarrow>
                  st\<lparr> isValid := False,
                      errors := errors st @ [(fieldName, msg)],
                      the_form := replace_first fieldName
                        (showFieldError (clearFieldError f) msg) (the_form st) \<rparr>)))"

text \<open>
  The two shapes \<open>validateForm\<close> returns: the bare boolean \<open>false\<close>, or the record
  \<open>{isValid, errors}\<close>.
\<close>

datatype validation = BareFalse | Report bool "(jsstring \<times> jsstring) list"

definition validateForm ::
    "forms_document \<Rightarrow> jsstring \<Rightarrow> (jsstring \<times> field_rules) list
      \<Rightarrow> validation \<times> forms_document" where
  "validateForm doc formId rules =
     (case map_of doc formId of
        None \<Rightarrow> (BareFalse, doc)
      | Some frm \<Rightarrow>
          (let st = foldl validate_field
                      \<lparr> isValid = True, errors = [], the_form = frm \<rparr> rules
           in (Report (isValid st) (errors st),
               replace_first formId (the_form st) doc)))"

text \<open>A document with one login form, and rules for its fields.\<close>

definition login_document :: forms_document where
  "login_document =
     [(js ''loginForm'',
       [(js ''email'', \<lparr> field_value = js ''nobody'', error_class = False,
                         field_error = None \<rparr>),
        (js ''password'', \<lparr> field_value = js ''pw'', error_class = True,
                            field_error = Some (js ''old'') \<rparr>)])]"

definition login_rules :: "(jsstring \<times> field_rules) list" where
  "login_rules =
     [(js ''email'', \<lparr> rule_required = True, rule_minLength = 0, rule_maxLength = 0,
                       rule_email = True, rule_custom = None \<rparr>),
      (js ''password'', \<lparr> rule_required = True, rule_minLength = 8, rule_maxLength = 0,
                          rule_email = False, rule_custom = None \<rparr>)]"

section \<open>AMINAApp: controller state and operations\<close>

text \<open>
  The controller with the parts of the page its operations read and write. The page has
  the elements the operations look up (\<open>queryInput\<close>, \<open>executeQueryBtn\<close>,
  \<open>queryResults\<close>, \<open>resultsContent\<close>, \<open>uploadProgress\<close>, \<open>progressFill\<close>,
  \<open>uploadStatus\<close>, \<open>fileInput\<close>, \<open>datasetsList\<close>). \<open>datasetsList\<close> records what the
  list container shows, not its markup; the query-time summary and the dashboard, which
  are re-rendered from \<open>datasets\<close> as well, are not kept. \<open>timeouts\<close> are the delays of
  the pending \<open>setTimeout\<close> callbacks that hide the progress container, \<open>intervals\<close>
  the number of running progress animations (their ticks only change the width of the
  progress bar), \<open>toasts\<close> the notices shown so far with their identifiers.
\<close>

record user =
  is_admin :: bool

datatype datasets_view = Loading | LoadError jsstring | Listing "dataset list"

record 'srv amina =
  currentUser :: "user option"
  datasets :: "dataset list"
  currentQuery :: "query_result option"
  queryInput :: jsstring
  executeBtn_disabled :: bool
  executeBtn_innerHTML :: "node list"
  queryResults_display :: string
  results_content :: "node list"
  datasetsList :: datasets_view
  uploadProgress_display :: string
  uploadStatus :: jsstring
  progressFill_width :: jsstring
  fileInput :: jsstring
  timeouts :: "nat list"
  intervals :: nat
  toastContainer :: bool
  toastId :: nat
  toasts :: "(nat \<times> jsstring \<times> string) list"
  net :: "'srv world"

text \<open>\<open>UI.showToast\<close>: without a toast container the message is only logged.\<close>

definition showToast :: "jsstring \<Rightarrow> string \<Rightarrow> 'srv amina \<Rightarrow> 'srv amina" where
  "showToast msg type app =
     (if \<not> toastContainer app then app
      else app\<lparr> toastId := toastId app + 1,
                toasts := toasts app @ [(toastId app + 1, msg, type)] \<rparr>)"

text \<open>\<open>this.currentUser?.is_admin\<close>.\<close>

definition admin :: "'srv amina \<Rightarrow> bool" where
  "admin app = (case currentUser app of None \<Rightarrow> False | Some u \<Rightarrow> is_admin u)"

definition loadSharedDatasets_catch :: "js_error \<Rightarrow> 'srv amina \<Rightarrow> 'srv amina" where
  "loadSharedDatasets_catch e app =
     showToast (js ''Failed to load datasets'') ''error''
       (app\<lparr> datasetsList := LoadError (js ''Failed to load datasets'') \<rparr>)"

definition loadSharedDatasets :: "'srv fetcher \<Rightarrow> 'srv amina \<Rightarrow> 'srv amina" where
  "loadSharedDatasets fetch app =
     (let app1 = app\<lparr> datasetsList := Loading \<rparr>;
          (r, w) = (if admin app1 then getAdminSharedDatasets fetch (net app1)
                    else getSharedDatasets fetch (net app1));
          app2 = app1\<lparr> net := w \<rparr>
      in case r of
           Inl e \<Rightarrow> loadSharedDatasets_catch e app2
         | Inr resp \<Rightarrow>
             if success resp then
               app2\<lparr> datasets := json_datasets resp,
                     datasetsList := Listing (json_datasets resp) \<rparr>
             else loadSharedDatasets_catch (new_Error_of (error resp)) app2)"

subsection \<open>Upload\<close>

definition uploadFile_catch :: "upload_file \<Rightarrow> js_error \<Rightarrow> 'srv amina \<Rightarrow> 'srv amina" where
  "uploadFile_catch f e app =
     (let app1 = showToast
            (js ''Failed to upload '' @ file_name f @ js '': '' @ error_message e) ''error''
            (app\<lparr> uploadStatus := js ''Upload failed'' \<rparr>)
      in app1\<lparr> timeouts := timeouts app1 @ [3000] \<rparr>)"




text \<open>The files submitted by the \<open>fetch\<close> calls of a log, in the order of the calls.\<close>

fun submitted_files :: "fetch_call list \<Rightarrow> upload_file list" where
  "submitted_files [] = []"
| "submitted_files (c # cs) =
     (case sent_body c of
        Some (FormData f) \<Rightarrow> f # submitted_files cs
      | _ \<Rightarrow> submitted_files cs)"

subsection \<open>Query execution\<close>

definition executeQuery_catch :: "js_error \<Rightarrow> 'srv amina \<Rightarrow> 'srv amina" where
  "executeQuery_catch e app =
     (showToast (js ''Query failed: '' @ error_message e) ''error'' app)
       \<lparr> queryResults_display := ''none'' \<rparr>"

definition executeQuery ::
    "'srv fetcher \<Rightarrow> (jsstring \<Rightarrow> jsstring) \<Rightarrow> 'srv amina \<Rightarrow> 'srv amina" where
  "executeQuery fetch toLocaleString app =
     (let queryText = trim (queryInput app) in
      if queryText = [] then showToast (js ''Please enter a query'') ''warning'' app
      else if length (datasets app) = 0 then
        showToast (js ''No datasets available for querying'') ''warning'' app
      else
        (let app1 = app\<lparr> executeBtn_disabled := True,
                         executeBtn_innerHTML :=
                           [icon ''fas fa-spinner fa-spin'', Text (js '' Executing...'')] \<rparr>;
             (r, w) = api_executeQuery fetch queryText (net app1);
             app2 = app1\<lparr> net := w \<rparr>;
             app3 =
               (case r of
                  Inl e \<Rightarrow> executeQuery_catch e app2
                | Inr resp \<Rightarrow>
                    if success resp then
                      showToast (js ''Query executed successfully'') ''success''
                        (app2\<lparr> currentQuery := Some (json_result resp),
                               results_content :=
                                 renderQueryResults toLocaleString (json_result resp),
                               queryResults_display := ''block'' \<rparr>)
                    else executeQuery_catch (new_Error_of (error resp)) app2)
         in app3\<lparr> executeBtn_disabled := False,
                   executeBtn_innerHTML :=
                     [icon ''fas fa-search'', Text (js '' Execute Query'')] \<rparr>))"

subsection \<open>Renaming\<close>

text \<open>
  \<open>answer\<close> is what \<open>prompt\<close> returns: \<open>None\<close> for \<open>null\<close> (the dialog was
  cancelled), otherwise the text entered. \<open>renameDataset\<close> reads \<open>dataset.name\<close>
  without testing the result of \<open>find\<close>, which throws a \<open>TypeError\<close> (with the
  message of V8) when no dataset has the identifier; \<open>renameSharedDataset\<close> returns in
  that case.
\<close>






section \<open>Servers for the examples\<close>

text \<open>
  The server is not among the sources; every operation takes it as the parameter
  \<open>fetch\<close>, and the properties below hold for whatever it answers. The examples need
  one to run against. \<open>keeping_server\<close> keeps the shared datasets and knows whether the
  session is an administrator's; it lists the datasets on the two list routes, and on
  the rename route the client calls it stores, for an administrator, the name as
  received.
\<close>

definition reply :: "bool \<Rightarrow> dataset list \<Rightarrow> json_body" where
  "reply ok ds =
     \<lparr> success = ok, error = (if ok then None else Some (js ''Not found'')),
       auth_error = False, json_datasets = ds, json_result = blank_result \<rparr>"






text \<open>
  Concrete states and servers used to run the controller: an administrator's session
  holding one dataset and a cached result, the keeping server's state with that
  dataset, two files to upload, a server that cannot be reached, and one that declares
  every request failed.
\<close>

definition sales :: dataset where
  "sales =
     \<lparr> ds_id = js ''d1'', ds_name = js ''Old'', ds_rows = 3, ds_columns = 2,
       ds_uploaded_by = None \<rparr>"

definition session :: "'srv \<Rightarrow> 'srv amina" where
  "session srv =
     \<lparr> currentUser = Some \<lparr> is_admin = True \<rparr>,
       datasets = [sales],
       currentQuery = Some chart_a_result,
       queryInput = js ''plot sales'',
       executeBtn_disabled = False,
       executeBtn_innerHTML = [icon ''fas fa-search'', Text (js '' Execute Query'')],
       queryResults_display = ''block'',
       results_content = renderQueryResults iso_locale chart_a_result,
       datasetsList = Listing [sales],
       uploadProgress_display = ''none'',
       uploadStatus = [],
       progressFill_width = js ''0%'',
       fileInput = [],
       timeouts = [],
       intervals = 0,
       toastContainer = True,
       toastId = 0,
       toasts = [],
       net = \<lparr> authManager = False, authModalShown = 0, fetched = [], server = srv \<rparr> \<rparr>"




definition offline_server :: "unit fetcher" where
  "offline_server call s = (Rejected (JsError (js ''TypeError'') (js ''Failed to fetch'')), s)"

definition refusing_server :: "unit fetcher" where
  "refusing_server call s = (Responded 200 (Inr (reply False [])), s)"

section \<open>Properties\<close>

subsection \<open>Strings\<close>

lemma unat_of_char: "unat (of_char c :: code_unit) = of_char c"
proof -
  have mod16: "unat (of_nat n :: code_unit) = n mod 65536" for n
    by (simp add: unat_of_nat)
  have "unat (of_char c :: code_unit) = unat (of_nat (of_char c) :: code_unit)"
    by (simp only: of_nat_of_char)
  also have "\<dots> = (of_char c :: nat) mod 65536"
    by (rule mod16)
  also have "\<dots> = of_char c"
    by (rule mod_less) (rule order_less_trans [OF nat_of_char_less_256], simp)
  finally show ?thesis .
qed

lemma js_inject [simp]: "js a = js b \<longleftrightarrow> a = b"
proof -
  have "inj (of_char :: char \<Rightarrow> code_unit)"
  proof (rule injI)
    fix x y :: char
    assume "(of_char x :: code_unit) = of_char y"
    then have "unat (of_char x :: code_unit) = unat (of_char y :: code_unit)"
      by simp
    then show "x = y"
      by (simp only: unat_of_char of_char_eq_iff)
  qed
  then show ?thesis
    by (simp add: js_def inj_map_eq_map)
qed

subsection \<open>Password policy\<close>

lemma password_rules_satisfies:
  "minLength (password_rules_of p) = satisfies p LengthRule"
  "hasUppercase (password_rules_of p) = satisfies p UppercaseRule"
  "hasLowercase (password_rules_of p) = satisfies p LowercaseRule"
  "hasNumber (password_rules_of p) = satisfies p DigitRule"
  "hasSpecial (password_rules_of p) = satisfies p SymbolRule"
  by (simp_all add: password_rules_of_def list_ex_iff is_special_def
      special_characters_def)

text \<open>
  C2. validatePassword returns valid exactly when the candidate has at least 8 code
  units and contains an uppercase letter (A-Z), a lowercase letter (a-z), a digit (0-9)
  and a symbol of the punctuation set; otherwise the message is that of the first
  violated rule in the order length, uppercase, lowercase, digit, symbol. The three
  examples of the specification are the last conjuncts.
\<close>

theorem validatePassword_first_violated:
  "(valid (validatePassword p) \<longleftrightarrow>
      8 \<le> length p \<and> (\<exists>c \<in> set p. is_uppercase c) \<and> (\<exists>c \<in> set p. is_lowercase c)
      \<and> (\<exists>c \<in> set p. is_digit c) \<and> (\<exists>c \<in> set p. is_special c))
   \<and> validatePassword p =
       (case first_violated p of
          None \<Rightarrow> \<lparr> valid = True, message = js ''Password is strong'' \<rparr>
        | Some r \<Rightarrow> \<lparr> valid = False, message = rule_message r \<rparr>)
   \<and> validatePassword (js ''short'') =
       \<lparr> valid = False, message = rule_message LengthRule \<rparr>
   \<and> validatePassword (js ''longenough'') =
       \<lparr> valid = False, message = rule_message UppercaseRule \<rparr>
   \<and> validatePassword (js ''LONGENOUGH1!'') =
       \<lparr> valid = False, message = rule_message LowercaseRule \<rparr>"
proof -
  have verdict: "validatePassword q =
       (case first_violated q of
          None \<Rightarrow> \<lparr> valid = True, message = js ''Password is strong'' \<rparr>
        | Some r \<Rightarrow> \<lparr> valid = False, message = rule_message r \<rparr>)" for q
    by (simp add: validatePassword_def Let_def password_rules_satisfies
        first_violated_def rule_order_def del: satisfies.simps)
  have "valid (validatePassword p) \<longleftrightarrow> (\<forall>r \<in> set rule_order. satisfies p r)"
  proof (cases "first_violated p")
    case None
    then have "\<forall>r \<in> set rule_order. satisfies p r"
      unfolding first_violated_def find_None_iff by blast
    with None show ?thesis
      by (simp add: verdict)
  next
    case (Some r)
    then have "r \<in> set rule_order \<and> \<not> satisfies p r"
      unfolding first_violated_def find_Some_iff by (metis nth_mem)
    with Some show ?thesis
      by (auto simp add: verdict)
  qed
  then have iff: "valid (validatePassword p) \<longleftrightarrow>
      8 \<le> length p \<and> (\<exists>c \<in> set p. is_uppercase c) \<and> (\<exists>c \<in> set p. is_lowercase c)
      \<and> (\<exists>c \<in> set p. is_digit c) \<and> (\<exists>c \<in> set p. is_special c)"
    by (simp add: rule_order_def is_special_def special_characters_def)
  have short: "first_violated (js ''short'') = Some LengthRule"
    by (simp add: first_violated_def rule_order_def js_def)
  have longenough: "first_violated (js ''longenough'') = Some UppercaseRule"
    by (simp add: first_violated_def rule_order_def js_def is_uppercase_def)
  have upper: "first_violated (js ''LONGENOUGH1!'') = Some LowercaseRule"
    by (simp add: first_violated_def rule_order_def js_def is_uppercase_def
        is_lowercase_def)
  show ?thesis
    using iff verdict [of p]
    by (simp add: verdict [of "js ''short''"] verdict [of "js ''longenough''"]
        verdict [of "js ''LONGENOUGH1!''"] short longenough upper)
qed

theorem validatePassword_first_violated_witness:
  "valid (validatePassword (js ''Str0ng!Pass''))
   \<and> validatePassword (js ''Str0ng!Pass'') =
       \<lparr> valid = True, message = js ''Password is strong'' \<rparr>
   \<and> validatePassword (js ''Weakpass1'') =
       \<lparr> valid = False, message = rule_message SymbolRule \<rparr>"
proof -
  have strong: "first_violated (js ''Str0ng!Pass'') = None"
    by (simp add: first_violated_def rule_order_def js_def is_uppercase_def
        is_lowercase_def is_digit_def)
  have weak: "first_violated (js ''Weakpass1'') = Some SymbolRule"
    by (simp add: first_violated_def rule_order_def js_def is_uppercase_def
        is_lowercase_def is_digit_def)
  show ?thesis
    using validatePassword_first_violated [of "js ''Str0ng!Pass''"]
      validatePassword_first_violated [of "js ''Weakpass1''"]
    by (simp add: strong weak)
qed

subsection \<open>HTTP client gateway\<close>

lemma request_catch_new_Error [simp]: "request_catch (new_Error m) = new_Error m"
  by (simp add: request_catch_def new_Error_def js_def)

lemma new_Error_inject [simp]: "new_Error a = new_Error b \<longleftrightarrow> a = b"
  by (simp add: new_Error_def)

lemma not_ok_401 [simp]: "\<not> response_ok 401"
  by (simp add: response_ok_def)

lemma http_message_neq: "js ''HTTP error! status: '' @ t \<noteq> js ''Authentication required''"
  by (simp add: js_def)

text \<open>
  C4 (as amended). Take a call whose response has a non-2xx status and a JSON body.
  When the status is 401 and the body carries a truthy \<open>auth_error\<close>, the call invokes
  the \<open>showAuthModal\<close> hook exactly when \<open>window.authManager\<close> is registered and
  fails with \<open>Error('Authentication required')\<close>. In every other non-2xx case, the flag
  notwithstanding, the hook is not invoked and the call fails with the generic error,
  whose message is the server's \<open>error\<close> text or the HTTP status line; the two errors
  are equal exactly when the server's text is \<open>Authentication required\<close>.
\<close>

theorem request_authentication_required:
  assumes "fetch (request_config endpoint options) (server w) =
             (Responded status (Inr data), srv)"
      and "\<not> response_ok status"
  shows "(status = 401 \<and> auth_error data \<longrightarrow>
           fst (request fetch endpoint options w) =
             Inl (new_Error (js ''Authentication required''))
           \<and> authModalShown (snd (request fetch endpoint options w)) =
               authModalShown w + (if authManager w then 1 else 0))
       \<and> (\<not> (status = 401 \<and> auth_error data) \<longrightarrow>
           fst (request fetch endpoint options w) =
             Inl (new_Error (or_else (error data)
                    (js ''HTTP error! status: '' @ string_of_nat status)))
           \<and> authModalShown (snd (request fetch endpoint options w)) = authModalShown w
           \<and> (new_Error (or_else (error data)
                    (js ''HTTP error! status: '' @ string_of_nat status)) =
                new_Error (js ''Authentication required'')
               \<longleftrightarrow> error data = Some (js ''Authentication required'')))"
proof -
  have nonempty: "js ''Authentication required'' \<noteq> []"
    by (simp add: js_def)
  have neq: "or_else (error data) (js ''HTTP error! status: '' @ string_of_nat status) =
        js ''Authentication required''
      \<longleftrightarrow> error data = Some (js ''Authentication required'')"
  proof (cases "error data")
    case None
    then show ?thesis
      using http_message_neq [of "string_of_nat status"] by (simp add: or_else_def)
  next
    case (Some m)
    then show ?thesis
      using http_message_neq [of "string_of_nat status"] nonempty
      by (cases "m = []") (auto simp add: or_else_def)
  qed
  show ?thesis
    using assms neq
    by (simp add: request_def Let_def showAuthModal_def)
qed

theorem request_authentication_required_witness:
  "fst (request server_401_flagged (js ''/datasets'') no_options hooked_world) =
     Inl (new_Error (js ''Authentication required''))
   \<and> authModalShown (snd (request server_401_flagged (js ''/datasets'') no_options
        hooked_world)) = 1
   \<and> fst (request server_401_unflagged (js ''/datasets'') no_options hooked_world) =
     Inl (new_Error (js ''Authentication required''))
   \<and> authModalShown (snd (request server_401_unflagged (js ''/datasets'') no_options
        hooked_world)) = 0"
proof -
  have a: "server_401_flagged (request_config (js ''/datasets'') no_options)
        (server hooked_world) = (Responded 401 (Inr flagged_body), ())"
    by (simp add: server_401_flagged_def)
  have b: "server_401_unflagged (request_config (js ''/datasets'') no_options)
        (server hooked_world) = (Responded 401 (Inr unflagged_body), ())"
    by (simp add: server_401_unflagged_def)
  have nok: "\<not> response_ok 401"
    by (simp add: response_ok_def)
  show ?thesis
    using request_authentication_required [of server_401_flagged, OF a nok]
      request_authentication_required [of server_401_unflagged, OF b nok]
    by (simp add: flagged_body_def unflagged_body_def hooked_world_def or_else_def js_def)
qed

text \<open>
  C4 as stated fails: a 403 response whose body carries the flag, with the hook
  registered, fails with the generic error and leaves the hook alone; and a 401 response
  without the flag whose \<open>error\<close> text is \<open>Authentication required\<close> fails with the
  very error value of the authentication path.
\<close>

theorem request_non_401_auth_flag_counterexample:
  "\<not> response_ok 403 \<and> auth_error flagged_body \<and> authManager hooked_world
   \<and> fst (request server_403_flagged (js ''/datasets'') no_options hooked_world) =
       Inl (new_Error (js ''Forbidden''))
   \<and> authModalShown (snd (request server_403_flagged (js ''/datasets'') no_options
        hooked_world)) = 0
   \<and> \<not> auth_error unflagged_body
   \<and> fst (request server_401_unflagged (js ''/datasets'') no_options hooked_world) =
       Inl (new_Error (js ''Authentication required''))"
  by (simp add: request_def Let_def server_403_flagged_def server_401_unflagged_def
      response_ok_def flagged_body_def unflagged_body_def hooked_world_def or_else_def
      js_def)

subsection \<open>Data tables\<close>

text \<open>
  C10. A table entry whose \<open>data\<close> is empty (or absent) or whose \<open>columns\<close> is absent is
  rendered as the \<open>No data to display\<close> paragraph: no \<open>thead\<close>, no row, no header cell.
\<close>

theorem renderDataTable_no_data:
  assumes "table_data t = Some [] \<or> table_columns t = None \<or> table_data t = None"
  shows "renderDataTable t =
           Element ''p'' [(''class'', js ''no-data'')] [Text (js ''No data to display'')]
         \<and> text_content (renderDataTable t) = js ''No data to display''
         \<and> elements_by_tag ''thead'' (renderDataTable t) = []
         \<and> elements_by_tag ''tr'' (renderDataTable t) = []
         \<and> elements_by_tag ''th'' (renderDataTable t) = []
         \<and> elements_by_tag ''table'' (renderDataTable t) = []"
proof -
  from assms have "renderDataTable t = no_data"
    by (auto simp add: renderDataTable_def)
  then show ?thesis
    by (simp add: no_data_def)
qed

theorem renderDataTable_no_data_witness:
  "renderDataTable (ab_table\<lparr> table_data := Some [] \<rparr>) =
     Element ''p'' [(''class'', js ''no-data'')] [Text (js ''No data to display'')]
   \<and> elements_by_tag ''thead'' (renderDataTable (ab_table\<lparr> table_data := Some [] \<rparr>)) = []
   \<and> renderDataTable (ab_table\<lparr> table_columns := None \<rparr>) =
     Element ''p'' [(''class'', js ''no-data'')] [Text (js ''No data to display'')]
   \<and> elements_by_tag ''thead'' (renderDataTable (ab_table\<lparr> table_columns := None \<rparr>)) = []
   \<and> length (elements_by_tag ''thead'' (renderDataTable ab_table)) = 1"
proof -
  have a: "table_data (ab_table\<lparr> table_data := Some [] \<rparr>) = Some []
      \<or> table_columns (ab_table\<lparr> table_data := Some [] \<rparr>) = None
      \<or> table_data (ab_table\<lparr> table_data := Some [] \<rparr>) = None"
    by simp
  have b: "table_data (ab_table\<lparr> table_columns := None \<rparr>) = Some []
      \<or> table_columns (ab_table\<lparr> table_columns := None \<rparr>) = None
      \<or> table_data (ab_table\<lparr> table_columns := None \<rparr>) = None"
    by simp
  have c: "length (elements_by_tag ''thead'' (renderDataTable ab_table)) = 1"
    by (simp add: renderDataTable_def ab_table_def)
  show ?thesis
    using renderDataTable_no_data [OF a] renderDataTable_no_data [OF b] c
    by simp
qed

subsection \<open>Decimal strings\<close>

lemma digit_value_digit_unit: "d < 10 \<Longrightarrow> digit_value (digit_unit d) = d"
  by (simp add: digit_value_def digit_unit_def unat_of_nat)

lemma nat_of_string_snoc:
  "nat_of_string (s @ [c]) = nat_of_string s * 10 + digit_value c"
  by (simp add: nat_of_string_def)

lemma nat_of_string_of_nat: "nat_of_string (string_of_nat n) = n"
proof (induction n rule: string_of_nat.induct)
  case (1 n)
  show ?case
  proof (cases "n < 10")
    case True
    then show ?thesis
      by (simp add: string_of_nat.simps [of n] nat_of_string_def digit_value_digit_unit)
  next
    case False
    with "1" have "nat_of_string (string_of_nat (n div 10)) = n div 10"
      by simp
    with False show ?thesis
      by (simp add: string_of_nat.simps [of n] nat_of_string_snoc digit_value_digit_unit)
  qed
qed

lemma string_of_nat_inject [simp]: "string_of_nat m = string_of_nat n \<longleftrightarrow> m = n"
  by (metis nat_of_string_of_nat)

lemma digit_unit_not_hyphen: "d < 10 \<Longrightarrow> digit_unit d \<noteq> 0x2D"
proof
  assume d: "d < 10" and eq: "digit_unit d = 0x2D"
  from eq have "digit_value (digit_unit d) = digit_value 0x2D"
    by simp
  with d have "d = digit_value 0x2D"
    by (simp add: digit_value_digit_unit)
  moreover have "digit_value 0x2D = 65533"
    by (simp add: digit_value_def)
  ultimately show False
    using d by simp
qed

lemma hyphen_notin_string_of_nat: "0x2D \<notin> set (string_of_nat n)"
proof (induction n rule: string_of_nat.induct)
  case (1 n)
  show ?case
  proof (cases "n < 10")
    case True
    then show ?thesis
      using digit_unit_not_hyphen [of n] by (auto simp add: string_of_nat.simps [of n])
  next
    case False
    with "1" have "0x2D \<notin> set (string_of_nat (n div 10))"
      by simp
    moreover have "digit_unit (n mod 10) \<noteq> 0x2D"
      by (rule digit_unit_not_hyphen) simp
    ultimately show ?thesis
      using False by (auto simp add: string_of_nat.simps [of n])
  qed
qed

subsection \<open>Container identifiers\<close>

lemma viz_id_inject: "viz_id t i = viz_id t' j \<longleftrightarrow> t = t' \<and> i = j"
proof -
  have hyphen: "js ''-'' = [0x2D]"
    by (simp add: js_def)
  have "viz_id t i = viz_id t' j \<longleftrightarrow>
      string_of_nat t @ 0x2D # string_of_nat i = string_of_nat t' @ 0x2D # string_of_nat j"
    by (simp add: viz_id_def hyphen)
  also have "\<dots> \<longleftrightarrow> string_of_nat t = string_of_nat t' \<and> string_of_nat i = string_of_nat j"
    by (rule append_Cons_eq_iff) (rule hyphen_notin_string_of_nat)+
  finally show ?thesis
    by simp
qed

lemma distinct_viz_ids: "distinct (viz_ids now n)"
  by (simp add: viz_ids_def distinct_map inj_on_def viz_id_inject)


lemma class_names_differ [simp]:
  "js ''result-item'' \<noteq> js ''visualization''"
  "js ''result-meta'' \<noteq> js ''visualization''"
  "js ''response-content'' \<noteq> js ''visualization''"
  "js ''viz-loading'' \<noteq> js ''visualization''"
  "js ''viz-error'' \<noteq> js ''visualization''"
  "js ''fas fa-chart-bar'' \<noteq> js ''visualization''"
  "js ''fas fa-spinner fa-spin'' \<noteq> js ''visualization''"
  "js ''fas fa-exclamation-triangle'' \<noteq> js ''visualization''"
  by simp_all

lemma header_block_no_visualization [simp]:
  "elements_by_class (js ''visualization'') (header_block loc r) = []"
  by (simp add: header_block_def)

lemma response_block_no_visualization [simp]:
  "visualization_blocks (response_block r) = []"
  by (simp add: response_block_def visualization_blocks_def)

lemma visualization_blocks_Cons [simp]:
  "visualization_blocks (n # ns) =
     elements_by_class (js ''visualization'') n @ visualization_blocks ns"
  by (simp add: visualization_blocks_def)

lemma visualization_blocks_append [simp]:
  "visualization_blocks (xs @ ys) = visualization_blocks xs @ visualization_blocks ys"
  by (simp add: visualization_blocks_def)

lemma visualization_blocks_Nil [simp]: "visualization_blocks [] = []"
  by (simp add: visualization_blocks_def)

lemma pharma_viz_block_container [simp]:
  "map (\<lambda>e. attribute e ''id'')
     (elements_by_class (js ''visualization'') (pharma_viz_block viz i)) = [Some i]"
  by (simp add: pharma_viz_block_def icon_def attribute_def)

lemma container_ids_viz_blocks:
  "length ids = length vizs \<Longrightarrow>
   map (\<lambda>e. attribute e ''id'') (visualization_blocks (map2 pharma_viz_block vizs ids))
     = map Some ids"
proof (induction vizs arbitrary: ids)
  case Nil
  then show ?case by simp
next
  case (Cons v vs)
  then obtain i rest where ids: "ids = i # rest" and len: "length rest = length vs"
    by (cases ids) auto
  with Cons.IH [of rest] show ?case
    by simp
qed

lemma resultsContent_schedule [simp]:
  "resultsContent (foldl (\<lambda>p (viz, vizId). renderVisualization viz vizId p) page ts)
     = resultsContent page"
  by (induction ts arbitrary: page) (auto simp add: renderVisualization_def)

lemma timers_schedule [simp]:
  "timers (foldl (\<lambda>p (viz, vizId). renderVisualization viz vizId p) page ts)
     = timers page @ ts"
  by (induction ts arbitrary: page) (auto simp add: renderVisualization_def)

lemma container_ids_render:
  "container_ids (resultsContent (pharma_renderQueryResults loc now r page)) =
     map Some (viz_ids now (length (present (visualizations r))))"
proof -
  have len: "length (viz_ids now (length (present (visualizations r)))) =
      length (present (visualizations r))"
    by (simp add: viz_ids_def)
  show ?thesis
    using container_ids_viz_blocks [OF len]
    by (simp add: pharma_renderQueryResults_def Let_def container_ids_def)
qed

text \<open>
  C3 (as amended). The container identifiers of one render are those of
  \<open>viz_ids\<close> and are pairwise distinct, whatever the clock returns. An identifier
  determines the clock reading and the index it was built from, so the identifiers of
  two renders coincide exactly at the indices both renders have and at which
  \<open>Date.now()\<close> returned the same value to both.
\<close>

theorem container_ids_collide_iff:
  "container_ids (resultsContent (pharma_renderQueryResults loc now r page)) =
     map Some (viz_ids now (length (present (visualizations r))))
   \<and> distinct (container_ids (resultsContent (pharma_renderQueryResults loc now r page)))
   \<and> (viz_id t i = viz_id t' j \<longleftrightarrow> t = t' \<and> i = j)
   \<and> set (container_ids (resultsContent (pharma_renderQueryResults loc now r page)))
       \<inter> set (container_ids (resultsContent (pharma_renderQueryResults loc' now' r' page')))
     = {Some (viz_id (now i) i) | i.
          i < length (present (visualizations r)) \<and> i < length (present (visualizations r'))
          \<and> now i = now' i}"
proof -
  have "distinct (map Some (viz_ids now n))" for n
    by (simp add: distinct_map distinct_viz_ids)
  moreover have "set (map Some (viz_ids now n)) \<inter> set (map Some (viz_ids now' m))
      = {Some (viz_id (now i) i) | i. i < n \<and> i < m \<and> now i = now' i}" for n m
    by (auto simp add: viz_ids_def viz_id_inject)
  ultimately show ?thesis
    by (simp only: container_ids_render viz_id_inject simp_thms)
qed

theorem container_ids_collide_iff_witness:
  "distinct (container_ids (resultsContent
      (pharma_renderQueryResults iso_locale frozen_clock chart_a_result empty_page)))
   \<and> set (container_ids (resultsContent
         (pharma_renderQueryResults iso_locale frozen_clock chart_a_result empty_page)))
       \<inter> set (container_ids (resultsContent
         (pharma_renderQueryResults iso_locale later_clock chart_a_result empty_page)))
     = {}"
proof -
  have differ: "frozen_clock i \<noteq> later_clock i" for i
    by (simp add: frozen_clock_def later_clock_def)
  have none: "{Some (viz_id (frozen_clock i) i) | i.
          i < length (present (visualizations chart_a_result))
          \<and> i < length (present (visualizations chart_a_result))
          \<and> frozen_clock i = later_clock i} = {}"
    using differ by simp
  note inst = container_ids_collide_iff [of iso_locale frozen_clock chart_a_result empty_page
        0 0 0 0 iso_locale later_clock chart_a_result empty_page, THEN conjunct2]
  from inst have "distinct (container_ids (resultsContent
      (pharma_renderQueryResults iso_locale frozen_clock chart_a_result empty_page)))"
    by (rule conjunct1)
  moreover from inst have "set (container_ids (resultsContent
         (pharma_renderQueryResults iso_locale frozen_clock chart_a_result empty_page)))
       \<inter> set (container_ids (resultsContent
         (pharma_renderQueryResults iso_locale later_clock chart_a_result empty_page)))
     = {}"
    unfolding none by (rule conjunct2 [OF conjunct2])
  ultimately show ?thesis
    by (rule conjI)
qed

text \<open>
  C3 as stated fails: two renders of the same result during one millisecond give their
  visualization containers the same identifier.
\<close>

theorem container_ids_collide_counterexample:
  "container_ids (resultsContent
      (pharma_renderQueryResults iso_locale frozen_clock chart_a_result empty_page))
     = [Some (js ''viz-1700000000000-0'')]
   \<and> container_ids (resultsContent
      (pharma_renderQueryResults iso_locale frozen_clock chart_a_result
         (pharma_renderQueryResults iso_locale frozen_clock chart_a_result empty_page)))
     = [Some (js ''viz-1700000000000-0'')]"
proof -
  have "string_of_nat 1700000000000 = js ''1700000000000''"
    by (simp add: string_of_nat.simps digit_unit_def js_def)
  moreover have "string_of_nat 0 = js ''0''"
    by (simp add: string_of_nat.simps digit_unit_def js_def)
  ultimately have "viz_ids frozen_clock (Suc 0) = [js ''viz-1700000000000-0'']"
    by (simp add: viz_ids_def viz_id_def frozen_clock_def js_def)
  then show ?thesis
    by (simp add: container_ids_render chart_a_result_def present_def)
qed


subsection \<open>Inert markup\<close>

lemma text_safe_append [simp]: "text_safe (a @ b) \<longleftrightarrow> text_safe a \<and> text_safe b"
  by (auto simp add: text_safe_def)

lemma text_safe_Nil [simp]: "text_safe []"
  by (simp add: text_safe_def)

lemma browser_document_inert:
  "list_all inert content \<Longrightarrow> browser_document content = Some content"
  by (simp add: browser_document_def)

lemma native_function_text_safe: 
  "text_safe (native_function_text ''Object'')"
  by (simp add: native_function_text_def text_safe_def js_def)

subsection \<open>Cells of a data table\<close>









subsection \<open>Rendering one chart\<close>

lemma js_br: "js ''<br>'' = [0x3C, 0x62, 0x72, 0x3E]"
  by (simp add: js_def)

lemma markup_safe_line_breaks:
  "text_safe t \<Longrightarrow>
   markup_safe (concat (map (\<lambda>c. if c = 0x0A then js ''<br>'' else [c]) t))"
proof (induction t)
  case Nil
  then show ?case by simp
next
  case (Cons c t)
  then have rest: "markup_safe (concat (map (\<lambda>c. if c = 0x0A then js ''<br>'' else [c]) t))"
    and c: "c \<noteq> 0x3C" "c \<noteq> 0x26"
    by (auto simp add: text_safe_def)
  show ?case
  proof (cases "c = 0x0A")
    case True
    with rest show ?thesis
      by (simp add: js_br)
  next
    case False
    with rest c show ?thesis
      by (simp add: js_br)
  qed
qed

lemma text_safe_join:
  "text_safe sep \<Longrightarrow> list_all text_safe xs \<Longrightarrow> text_safe (join sep xs)"
  by (induction sep xs rule: join.induct) simp_all

lemma digit_unit_is_digit: "d < 10 \<Longrightarrow> is_digit (digit_unit d)"
proof -
  assume "d < 10"
  then have "d = 0 \<or> d = 1 \<or> d = 2 \<or> d = 3 \<or> d = 4 \<or> d = 5 \<or> d = 6 \<or> d = 7 \<or> d = 8 \<or> d = 9"
    by arith
  then show ?thesis
    by (auto simp add: digit_unit_def is_digit_def)
qed

lemma string_of_nat_digits: "c \<in> set (string_of_nat n) \<Longrightarrow> is_digit c"
proof (induction n rule: string_of_nat.induct)
  case (1 n)
  show ?case
  proof (cases "n < 10")
    case True
    with "1.prems" show ?thesis
      by (auto simp add: string_of_nat.simps [of n] digit_unit_is_digit)
  next
    case False
    have "is_digit (digit_unit (n mod 10))"
      by (rule digit_unit_is_digit) simp
    with False "1.IH" "1.prems" show ?thesis
      by (auto simp add: string_of_nat.simps [of n])
  qed
qed

lemma attribute_safe_viz_id: "attribute_safe (viz_id t i)"
proof -
  have "\<not> is_digit 0x22" "\<not> is_digit 0x26"
    by (simp_all add: is_digit_def)
  then have "0x22 \<notin> set (string_of_nat n) \<and> 0x26 \<notin> set (string_of_nat n)" for n
    using string_of_nat_digits by blast
  then show ?thesis
    by (simp add: attribute_safe_def viz_id_def) (simp add: js_def)
qed

lemma inert_header_block: "plain_result loc r \<Longrightarrow> inert (header_block loc r)"
proof -
  assume p: "plain_result loc r"
  have lit: "text_safe (js ''Query: \"'')" "text_safe (js ''\"'')"
    "text_safe (js ''Executed on: '')" "text_safe (js ''Datasets used: '')"
    "text_safe (js '', '')"
    "attribute_safe (js ''result-item'')" "attribute_safe (js ''result-meta'')"
    by (simp_all add: text_safe_def attribute_safe_def js_def)
  from p have "text_safe (join (js '', '') (datasets_used r))"
    by (simp add: plain_result_def text_safe_join lit)
  with p lit show ?thesis
    by (simp add: header_block_def plain_result_def)
qed

lemma inert_response_block: "plain_result loc r \<Longrightarrow> list_all inert (response_block r)"
proof -
  assume p: "plain_result loc r"
  have lit: "attribute_safe (js ''result-item'')" "attribute_safe (js ''response-content'')"
    by (simp_all add: attribute_safe_def js_def)
  show ?thesis
  proof (cases "response r")
    case None
    then show ?thesis
      by (simp add: response_block_def truthy_def)
  next
    case (Some t)
    with p have "text_safe t"
      by (simp add: plain_result_def)
    then have "markup_safe (formatResponseText (Some t))"
      by (simp add: formatResponseText_def markup_safe_line_breaks)
    with Some lit show ?thesis
      by (simp add: response_block_def)
  qed
qed

lemma header_block_no_id [simp]: "\<not> has_id i (header_block loc r)"
  by (simp add: header_block_def)

lemma response_block_no_id [simp]: "\<not> list_ex (has_id i) (response_block r)"
  by (simp add: response_block_def)

lemma set_inner_first_append:
  "\<not> list_ex (has_id i) xs \<Longrightarrow>
   set_inner_first i new (xs @ ys) = xs @ set_inner_first i new ys"
  by (induction xs) auto

lemma pharma_pipeline_single:
  "resultsContent (pharma_pipeline loc now (r\<lparr> visualizations := Some [viz] \<rparr>)
      (page\<lparr> timers := [] \<rparr>)) =
   header_block loc (r\<lparr> visualizations := Some [viz] \<rparr>)
   # response_block (r\<lparr> visualizations := Some [viz] \<rparr>)
   @ [Element ''div'' [(''class'', js ''result-item'')]
       [Element ''h4'' [] [icon ''fas fa-chart-bar'', Text (js '' '' @ viz_title viz)],
        Element ''div'' [(''class'', js ''visualization''), (''id'', viz_id (now 0) 0)]
          (visualization_markup viz)]]"
  by (simp add: pharma_pipeline_def pharma_renderQueryResults_def run_timers_def Let_def
      present_def viz_ids_def timer_callback_def set_inner_first_append
      pharma_viz_block_def icon_def renderVisualization_def)

lemma pharma_render_single:
  "resultsContent (pharma_renderQueryResults loc now (r\<lparr> visualizations := Some [viz] \<rparr>)
      page) =
   header_block loc (r\<lparr> visualizations := Some [viz] \<rparr>)
   # response_block (r\<lparr> visualizations := Some [viz] \<rparr>)
   @ [pharma_viz_block viz (viz_id (now 0) 0)]"
  by (simp add: pharma_renderQueryResults_def Let_def present_def viz_ids_def
      renderVisualization_def)

lemma plain_result_update [simp]:
  "plain_result loc (r\<lparr> visualizations := vs \<rparr>) = plain_result loc r"
  "plain_result loc (r\<lparr> data_tables := ts \<rparr>) = plain_result loc r"
  by (simp_all add: plain_result_def)

lemma chart_a_markup:
  "visualization_markup (chart_a\<lparr> viz_type := Some (js ''chart'') \<rparr>) =
      [Element ''img''
         [(''src'', js ''http://x/a.png''),
          (''style'', js ''max-width: 100%; height: auto;''),
          (''alt'', js ''Chart A'')] []]"
  "visualization_markup chart_a =
      [Element ''div'' [(''class'', js ''viz-error'')]
           [icon ''fas fa-exclamation-triangle'',
            Element ''span'' [] [Text (js ''No visualization content available'')]]]"
proof -
  have url: "truthy (Some (js ''http://x/a.png''))" "\<not> truthy None"
    by (simp_all add: truthy_def js_def)
  show "visualization_markup (chart_a\<lparr> viz_type := Some (js ''chart'') \<rparr>) =
      [Element ''img''
         [(''src'', js ''http://x/a.png''),
          (''style'', js ''max-width: 100%; height: auto;''),
          (''alt'', js ''Chart A'')] []]"
    using url by (simp add: visualization_markup_def chart_a_def interpolate_def)
  show "visualization_markup chart_a =
      [Element ''div'' [(''class'', js ''viz-error'')]
           [icon ''fas fa-exclamation-triangle'',
            Element ''span'' [] [Text (js ''No visualization content available'')]]]"
    using url by (simp add: visualization_markup_def chart_a_def)
qed

lemma chart_a_literals_safe:
  "attribute_safe (js ''result-item'')" "attribute_safe (js ''visualization'')"
  "attribute_safe (js ''viz-loading'')" "attribute_safe (js ''viz-error'')"
  "attribute_safe (js ''fas fa-chart-bar'')" "attribute_safe (js ''fas fa-spinner fa-spin'')"
  "attribute_safe (js ''fas fa-exclamation-triangle'')"
  "attribute_safe (js ''http://x/a.png'')" "attribute_safe (js ''Chart A'')"
  "attribute_safe (js ''max-width: 100%; height: auto;'')"
  "text_safe (js '' Chart A'')" "text_safe (js '' '')" "text_safe (js ''Chart A'')"
  "text_safe (js ''Rendering chart...'')"
  "text_safe (js ''No visualization content available'')"
  "text_safe (js ''Failed to load chart'')"
  by (simp_all add: attribute_safe_def text_safe_def js_def)

lemma amina_chart_a_inert: "inert (amina_viz_block chart_a)"
  by (simp add: amina_viz_block_def chart_a_def icon_def interpolate_def
      chart_a_literals_safe)
    (simp add: attribute_safe_def text_safe_def js_def)


text \<open>
  C1 (as amended). Take a result whose interpolated strings are inert, whose
  \<open>visualizations\<close> is the single entry \<open>{title:"Chart A", url:"http://x/a.png"}\<close> and
  whose \<open>data_tables\<close> is empty. In the document that
  \<open>AMINAApp.renderQueryResults\<close> produces there is exactly one visualization block,
  holding one image, whose alternative text is \<open>Chart A\<close>. The pipeline of
  \<open>PharmaQueryApp\<close> (render, then the deferred \<open>renderVisualization\<close>, no earlier
  deferred render being pending) produces exactly one visualization block as well: it
  holds that image when the entry also carries the type \<open>chart\<close>, and for the entry as
  given it holds no image but the notice \<open>No visualization content available\<close>.
\<close>

theorem render_chart_a_alt_text:
  assumes "plain_result loc r"
  shows "block_images
           (renderQueryResults loc
              (r\<lparr> visualizations := Some [chart_a], data_tables := Some [] \<rparr>))
           = Some [[Some (js ''Chart A'')]]
     \<and> block_images (resultsContent
           (pharma_pipeline loc now
              (r\<lparr> visualizations := Some [chart_a\<lparr> viz_type := Some (js ''chart'') \<rparr>],
                 data_tables := Some [] \<rparr>)
              (page\<lparr> timers := [] \<rparr>)))
           = Some [[Some (js ''Chart A'')]]
     \<and> block_images (resultsContent
           (pharma_pipeline loc now
              (r\<lparr> visualizations := Some [chart_a], data_tables := Some [] \<rparr>)
              (page\<lparr> timers := [] \<rparr>)))
           = Some [[]]
     \<and> block_texts (resultsContent
           (pharma_pipeline loc now
              (r\<lparr> visualizations := Some [chart_a], data_tables := Some [] \<rparr>)
              (page\<lparr> timers := [] \<rparr>)))
           = Some [js ''No visualization content available'']"
proof -
  let ?r = "r\<lparr> data_tables := Some [] \<rparr>"
  have plain: "plain_result loc ?r"
    using assms by simp
  have head: "inert (header_block loc (?r\<lparr> visualizations := vs \<rparr>))"
    and resp: "list_all inert (response_block (?r\<lparr> visualizations := vs \<rparr>))" for vs
    using plain by (simp_all add: inert_header_block inert_response_block)
  have swap: "r\<lparr> visualizations := vs, data_tables := Some [] \<rparr> = ?r\<lparr> visualizations := vs \<rparr>"
    for vs
    by simp
  have amina: "block_images (renderQueryResults loc (?r\<lparr> visualizations := Some [chart_a] \<rparr>))
      = Some [[Some (js ''Chart A'')]]"
  proof -
    have "list_all inert (renderQueryResults loc (?r\<lparr> visualizations := Some [chart_a] \<rparr>))"
      using head resp amina_chart_a_inert
      by (simp add: renderQueryResults_def present_def)
    then show ?thesis
      by (simp add: block_images_def browser_document_def)
        (simp add: renderQueryResults_def present_def amina_viz_block_def icon_def
          image_alts_def attribute_def chart_a_def)
  qed
  have title: "viz_title (chart_a\<lparr> viz_type := ty \<rparr>) = js ''Chart A''" for ty
    by (simp add: chart_a_def)
  have typed_inert: "list_all inert
      (visualization_markup (chart_a\<lparr> viz_type := Some (js ''chart'') \<rparr>))"
    by (simp add: chart_a_markup chart_a_literals_safe)
  have bare_inert: "list_all inert (visualization_markup chart_a)"
    by (simp add: chart_a_markup chart_a_literals_safe icon_def)
  have typed: "block_images (resultsContent
           (pharma_pipeline loc now
              (?r\<lparr> visualizations := Some [chart_a\<lparr> viz_type := Some (js ''chart'') \<rparr>] \<rparr>)
              (page\<lparr> timers := [] \<rparr>)))
           = Some [[Some (js ''Chart A'')]]"
  proof -
    have "list_all inert (resultsContent
           (pharma_pipeline loc now
              (?r\<lparr> visualizations := Some [chart_a\<lparr> viz_type := Some (js ''chart'') \<rparr>] \<rparr>)
              (page\<lparr> timers := [] \<rparr>)))"
      using head resp typed_inert
      by (simp only: pharma_pipeline_single title)
        (simp add: chart_a_literals_safe attribute_safe_viz_id icon_def)
    then show ?thesis
      by (simp add: block_images_def browser_document_def)
        (simp add: pharma_pipeline_single chart_a_markup image_alts_def attribute_def
          icon_def)
  qed
  have bare_title: "viz_title chart_a = js ''Chart A''"
    by (simp add: chart_a_def)
  have bare_doc: "list_all inert (resultsContent
           (pharma_pipeline loc now (?r\<lparr> visualizations := Some [chart_a] \<rparr>)
              (page\<lparr> timers := [] \<rparr>)))"
    using head resp bare_inert bare_title
    by (simp only: pharma_pipeline_single)
      (simp add: chart_a_literals_safe attribute_safe_viz_id icon_def)
  have bare: "block_images (resultsContent
           (pharma_pipeline loc now (?r\<lparr> visualizations := Some [chart_a] \<rparr>)
              (page\<lparr> timers := [] \<rparr>)))
           = Some [[]]"
    using bare_doc
    by (simp add: block_images_def browser_document_def)
      (simp add: pharma_pipeline_single chart_a_markup image_alts_def icon_def)
  have notice: "block_texts (resultsContent
           (pharma_pipeline loc now (?r\<lparr> visualizations := Some [chart_a] \<rparr>)
              (page\<lparr> timers := [] \<rparr>)))
           = Some [js ''No visualization content available'']"
    using bare_doc
    by (simp add: block_texts_def browser_document_def)
      (simp add: pharma_pipeline_single chart_a_markup icon_def)
  from amina typed bare notice show ?thesis
    by (simp only: swap simp_thms)
qed

theorem render_chart_a_alt_text_witness:
  "block_images (renderQueryResults iso_locale chart_a_result)
     = Some [[Some (js ''Chart A'')]]
   \<and> block_images (resultsContent
        (pharma_pipeline iso_locale frozen_clock
           (chart_a_result\<lparr> visualizations :=
              Some [chart_a\<lparr> viz_type := Some (js ''chart'') \<rparr>] \<rparr>)
           empty_page))
     = Some [[Some (js ''Chart A'')]]"
proof -
  have plain: "plain_result iso_locale chart_a_result"
    by (simp add: plain_result_def chart_a_result_def iso_locale_def)
      (simp add: text_safe_def js_def)
  have same: "chart_a_result\<lparr> visualizations := Some [chart_a], data_tables := Some [] \<rparr>
      = chart_a_result"
    "chart_a_result\<lparr> visualizations := Some [chart_a\<lparr> viz_type := Some (js ''chart'') \<rparr>],
        data_tables := Some [] \<rparr>
      = chart_a_result\<lparr> visualizations :=
              Some [chart_a\<lparr> viz_type := Some (js ''chart'') \<rparr>] \<rparr>"
    "empty_page\<lparr> timers := [] \<rparr> = empty_page"
    by (simp_all add: chart_a_result_def empty_page_def)
  show ?thesis
    using render_chart_a_alt_text [OF plain, of frozen_clock empty_page]
    by (simp only: same)
qed

text \<open>
  C1 as stated fails on \<open>PharmaQueryApp\<close>: the entry carries no type, so the deferred
  renderer leaves the one visualization block without any image and puts the
  \<open>No visualization content available\<close> notice in it.
\<close>

theorem pharma_chart_a_counterexample:
  "map image_alts (visualization_blocks (resultsContent
      (pharma_pipeline iso_locale frozen_clock chart_a_result empty_page))) = [[]]
   \<and> map text_content (visualization_blocks (resultsContent
      (pharma_pipeline iso_locale frozen_clock chart_a_result empty_page)))
     = [js ''No visualization content available'']"
proof -
  have url: "\<not> truthy None"
    by (simp add: truthy_def)
  have markup: "visualization_markup chart_a =
      [Element ''div'' [(''class'', js ''viz-error'')]
           [icon ''fas fa-exclamation-triangle'',
            Element ''span'' [] [Text (js ''No visualization content available'')]]]"
    using url by (simp add: visualization_markup_def chart_a_def)
  have "chart_a_result = chart_a_result\<lparr> visualizations := Some [chart_a] \<rparr>"
    by (simp add: chart_a_result_def)
  moreover have "empty_page = empty_page\<lparr> timers := [] \<rparr>"
    by (simp add: empty_page_def)
  ultimately have "resultsContent
      (pharma_pipeline iso_locale frozen_clock chart_a_result empty_page) =
   header_block iso_locale chart_a_result
   # response_block chart_a_result
   @ [Element ''div'' [(''class'', js ''result-item'')]
       [Element ''h4'' [] [icon ''fas fa-chart-bar'', Text (js '' '' @ viz_title chart_a)],
        Element ''div'' [(''class'', js ''visualization''),
            (''id'', viz_id (frozen_clock 0) 0)]
          (visualization_markup chart_a)]]"
    using pharma_pipeline_single [where loc = iso_locale and now = frozen_clock
        and r = chart_a_result and viz = chart_a and page = empty_page]
    by simp
  then show ?thesis
    by (simp add: markup image_alts_def icon_def)
qed

subsection \<open>Form validation\<close>

text \<open>
  C9. When no form has the given identifier, validateForm returns the bare boolean
  \<open>false\<close>, not an \<open>{isValid, errors}\<close> record, and leaves every field of the document
  as it was, whatever the rules; when the form exists the result is a record.
\<close>

theorem validateForm_missing_form:
  "(map_of doc formId = None \<longrightarrow>
      validateForm doc formId rules = (BareFalse, doc)
      \<and> (\<forall>v es. fst (validateForm doc formId rules) \<noteq> Report v es))
   \<and> (map_of doc formId \<noteq> None \<longrightarrow> fst (validateForm doc formId rules) \<noteq> BareFalse)"
  by (auto simp add: validateForm_def Let_def)

theorem validateForm_missing_form_witness:
  "validateForm login_document (js ''signupForm'') login_rules = (BareFalse, login_document)
   \<and> fst (validateForm login_document (js ''loginForm'') login_rules) =
       Report False
         [(js ''email'', js ''Please enter a valid email address''),
          (js ''password'', js ''Minimum length is 8 characters'')]"
proof -
  have missing: "map_of login_document (js ''signupForm'') = None"
    by (simp add: login_document_def)
  have eight: "string_of_nat 8 = js ''8''"
    by (simp add: string_of_nat.simps digit_unit_def js_def)
  have nobody: "\<not> isValidEmail (js ''nobody'')"
    by (simp add: isValidEmail_def js_def)
  have present: "fst (validateForm login_document (js ''loginForm'') login_rules) =
       Report False
         [(js ''email'', js ''Please enter a valid email address''),
          (js ''password'', js ''Minimum length is 8 characters'')]"
    using nobody
    by (simp add: validateForm_def Let_def login_document_def login_rules_def
        validate_field_def field_message_def eight)
      (simp add: js_def trim_def is_whitespace_def)
  show ?thesis
    using validateForm_missing_form [of login_document "js ''signupForm''" login_rules]
      missing present
    by simp
qed

subsection \<open>Requests of the controller\<close>

lemma request_fetched [simp]:
  "fetched (snd (request fetch endpoint options w)) =
     fetched w @ [request_config endpoint options]"
  by (simp add: request_def Let_def showAuthModal_def
      split: prod.split fetch_outcome.split sum.split)

lemma showToast_net [simp]: "net (showToast msg kind app) = net app"
  by (simp add: showToast_def)

lemma showToast_admin [simp]: "admin (showToast msg kind app) = admin app"
  by (simp add: showToast_def admin_def)

lemma submitted_files_append [simp]:
  "submitted_files (xs @ ys) = submitted_files xs @ submitted_files ys"
  by (induction xs) (auto split: option.split request_body.split)

lemma loadSharedDatasets_fetched:
  "fetched (net (loadSharedDatasets fetch app)) =
     fetched (net app)
     @ [request_config
          (if admin app then js ''/admin/shared-datasets'' else js ''/shared-datasets'')
          no_options]"
proof (cases "admin app")
  case True
  then have "admin (app\<lparr> datasetsList := Loading \<rparr>)"
    by (simp add: admin_def)
  then show ?thesis
    using True
    by (simp add: loadSharedDatasets_def Let_def getAdminSharedDatasets_def
        loadSharedDatasets_catch_def
        split: prod.split sum.split)
      (metis request_fetched snd_conv)
next
  case False
  then have "\<not> admin (app\<lparr> datasetsList := Loading \<rparr>)"
    by (simp add: admin_def)
  then show ?thesis
    using False
    by (simp add: loadSharedDatasets_def Let_def getSharedDatasets_def
        loadSharedDatasets_catch_def
        split: prod.split sum.split)
      (metis request_fetched snd_conv)
qed

lemma loadSharedDatasets_submitted [simp]:
  "submitted_files (fetched (net (loadSharedDatasets fetch app))) =
     submitted_files (fetched (net app))"
  by (simp add: loadSharedDatasets_fetched request_config_def no_options_def)


subsection \<open>Upload batches\<close>

lemma uploadFile_catch_net [simp]: "net (uploadFile_catch f e app) = net app"
  by (simp add: uploadFile_catch_def Let_def)


lemma sent_body_request_config [simp]:
  "sent_body (request_config endpoint options) = options_body options"
  by (simp add: request_config_def)






subsection \<open>Failed queries\<close>

text \<open>
  C5. Let a query pass validation (the trimmed text is not empty and there is a
  dataset) and fail: the gateway throws (transport error, unreadable body, error
  status) or returns a body that declares failure. Then the controller ends in the state
  it started from except that the request is logged, a failure notice is shown, the
  results container is hidden and the button is enabled with its label restored. In
  particular \<open>currentQuery\<close>, the cached result, and the rendered content are unchanged.
\<close>

theorem executeQuery_failure_keeps_cache:
  assumes "trim (queryInput app) \<noteq> []" and "datasets app \<noteq> []"
    and "api_executeQuery fetch (trim (queryInput app)) (net app) = (r, w)"
    and "r = Inl e \<or> (\<exists>resp. r = Inr resp \<and> \<not> success resp \<and> e = new_Error_of (error resp))"
  shows "executeQuery fetch toLocaleString app =
           (showToast (js ''Query failed: '' @ error_message e) ''error''
              (app\<lparr> executeBtn_disabled := True,
                    executeBtn_innerHTML :=
                      [icon ''fas fa-spinner fa-spin'', Text (js '' Executing...'')],
                    net := w \<rparr>))
             \<lparr> queryResults_display := ''none'',
               executeBtn_disabled := False,
               executeBtn_innerHTML := [icon ''fas fa-search'', Text (js '' Execute Query'')] \<rparr>
         \<and> currentQuery (executeQuery fetch toLocaleString app) = currentQuery app
         \<and> results_content (executeQuery fetch toLocaleString app) = results_content app
         \<and> queryResults_display (executeQuery fetch toLocaleString app) = ''none''
         \<and> datasets (executeQuery fetch toLocaleString app) = datasets app"
proof -
  have run: "executeQuery fetch toLocaleString app =
           (showToast (js ''Query failed: '' @ error_message e) ''error''
              (app\<lparr> executeBtn_disabled := True,
                    executeBtn_innerHTML :=
                      [icon ''fas fa-spinner fa-spin'', Text (js '' Executing...'')],
                    net := w \<rparr>))
             \<lparr> queryResults_display := ''none'',
               executeBtn_disabled := False,
               executeBtn_innerHTML := [icon ''fas fa-search'', Text (js '' Execute Query'')] \<rparr>"
    using assms
    by (auto simp add: executeQuery_def Let_def executeQuery_catch_def)
  show ?thesis
    unfolding run by (simp add: showToast_def)
qed

theorem executeQuery_failure_keeps_cache_witness:
  "currentQuery (executeQuery offline_server iso_locale (session ())) = Some chart_a_result
   \<and> results_content (executeQuery offline_server iso_locale (session ())) =
       renderQueryResults iso_locale chart_a_result
   \<and> queryResults_display (executeQuery offline_server iso_locale (session ())) = ''none''
   \<and> currentQuery (executeQuery refusing_server iso_locale (session ())) = Some chart_a_result
   \<and> queryResults_display (executeQuery refusing_server iso_locale (session ())) = ''none''"
proof -
  have typed: "trim (queryInput (session ())) \<noteq> []"
    by (simp add: session_def trim_def js_def is_whitespace_def)
  have sets: "datasets (session ()) \<noteq> []"
    by (simp add: session_def)
  have offline: "api_executeQuery offline_server (trim (queryInput (session ())))
        (net (session ())) =
      (Inl (new_Error (js ''Network error. Please check your connection and try again.'')),
       snd (api_executeQuery offline_server (trim (queryInput (session ())))
             (net (session ()))))"
    by (simp add: api_executeQuery_def request_def Let_def offline_server_def
        request_catch_def js_def)
  have refusing: "api_executeQuery refusing_server (trim (queryInput (session ())))
        (net (session ())) =
      (Inr (reply False []),
       snd (api_executeQuery refusing_server (trim (queryInput (session ())))
             (net (session ()))))"
    by (simp add: api_executeQuery_def request_def Let_def refusing_server_def
        response_ok_def)
  have declared: "Inr (reply False []) = Inl (new_Error_of (error (reply False [])))
      \<or> (\<exists>resp. Inr (reply False []) = Inr resp \<and> \<not> success resp
            \<and> new_Error_of (error (reply False [])) = new_Error_of (error resp))"
    by (simp add: reply_def)
  have transport:
    "Inl (new_Error (js ''Network error. Please check your connection and try again.'')) =
       Inl (new_Error (js ''Network error. Please check your connection and try again.''))
     \<or> (\<exists>resp.
          Inl (new_Error (js ''Network error. Please check your connection and try again.''))
            = Inr resp
          \<and> \<not> success resp
          \<and> new_Error (js ''Network error. Please check your connection and try again.'')
              = new_Error_of (error resp))"
    by simp
  have cached: "currentQuery (session ()) = Some chart_a_result"
    by (simp add: session_def)
  have shown: "results_content (session ()) = renderQueryResults iso_locale chart_a_result"
    by (simp add: session_def)
  show ?thesis
    using executeQuery_failure_keeps_cache
        [OF typed sets offline transport, of iso_locale, THEN conjunct2]
      executeQuery_failure_keeps_cache
        [OF typed sets refusing declared, of iso_locale, THEN conjunct2]
    by (simp add: cached shown)
qed

subsection \<open>Renaming\<close>

lemma admin_unchanged [simp]:
  "admin (app\<lparr> net := w \<rparr>) = admin app"
  "admin (app\<lparr> datasetsList := v \<rparr>) = admin app"
  by (simp_all add: admin_def)












end
